theory Spec2Isabelle
  imports Complex_Main "HOL-Library.Word"
begin

unbundle bit_operations_syntax

section \<open>ADio\_Utils: the 10-character command codec and the command catalogue\<close>

text \<open>
  The development follows \<^verbatim>\<open>ADio_Utils.py\<close>. Python's unbounded integers are \<^typ>\<open>int\<close>,
  \<^verbatim>\<open>str\<close> values built by the module are \<^typ>\<open>string\<close>, byte strings received from the
  device are lists of \<^typ>\<open>char\<close> (8-bit), and every \<^verbatim>\<open>raise\<close> of the module is a value
  of the type \<open>error\<close> returned on the left of a sum.
\<close>

subsection \<open>Exceptions\<close>

text \<open>
  One constructor per \<^verbatim>\<open>raise\<close> site. The module raises \<^verbatim>\<open>ValueError\<close> with a
  (mostly Japanese) message for every rejected argument; the message is represented by
  the site that produces it, with the values the message interpolates.
\<close>

datatype reason =
    Unsupported_fs_ksps int   \<comment> \<open>\<^verbatim>\<open>get_sampling_command\<close>: rate not in the table\<close>
  | Bad_target                \<comment> \<open>\<^verbatim>\<open>get_sampling_command\<close>: target neither 0 nor 1\<close>
  | Not_in_list               \<comment> \<open>\<^verbatim>\<open>list.index\<close> of an absent element\<close>
  | Bad_ch_spec               \<comment> \<open>\<^verbatim>\<open>_normalize_channels\<close>: not 'all', an int or an iterable of ints\<close>
  | Ch_out_of_range int int   \<comment> \<open>\<^verbatim>\<open>_normalize_channels\<close>: bound and the offending channel\<close>
  | Negative_shift            \<comment> \<open>\<^verbatim>\<open>1 << ch\<close> with a negative count\<close>
  | Ch_0_15
  | Chunk_size_0_2047
  | Chunk_num_1_65536
  | Ldac_level_0_1
  | Ldac_ch_0_7
  | Mask_00_FF
  | Dac_ch_0_8
  | Value_0000_FFFF
  | Gain_code_0_4
  | Enc_ch_0_3_or_all         \<comment> \<open>\<^verbatim>\<open>_norm_enc_ch\<close>\<close>
  | Value16_0000_FFFF
  | Value32_range
  | Reset_and_preset          \<comment> \<open>\<^verbatim>\<open>cmd_encoder_ctrl\<close>: do\_reset together with load\_preset\<close>
  | Freq_negative
  | Freq_not_encodable
  | Dddd_0000_03FF
  | Duty_0_1
  | Channel_0_3
  | Value_00_FF
  | Mode_all_or_adc

datatype error =
    ValueError reason
  | RuntimeError string       \<comment> \<open>\<^verbatim>\<open>_fmt_cmd\<close>: the frame that is not 10 characters long\<close>

subsection \<open>Upper-case hexadecimal formatting\<close>

text \<open>
  \<^verbatim>\<open>f"{n:X}"\<close>, \<^verbatim>\<open>f"{n:02X}"\<close>, \<^verbatim>\<open>f"{n:04X}"\<close> and \<^verbatim>\<open>f"{n:08X}"\<close>: the magnitude in upper-case
  hexadecimal, padded with zeros on the left to the minimum width; a negative number
  carries a minus sign that counts towards the width. A number with more digits than
  the width is printed in full.
\<close>

definition hexdigit :: "nat \<Rightarrow> char" where
  "hexdigit d = ''0123456789ABCDEF'' ! d"

function hex_of_nat :: "nat \<Rightarrow> string" where
  "hex_of_nat n = (if n < 16 then [hexdigit n] else hex_of_nat (n div 16) @ [hexdigit (n mod 16)])"
  by pat_completeness auto
termination
  by (relation "measure id") auto

declare hex_of_nat.simps [simp del]

definition zpad :: "nat \<Rightarrow> string \<Rightarrow> string" where
  "zpad w s = replicate (w - length s) (CHR ''0'') @ s"

definition fmt_X :: "nat \<Rightarrow> int \<Rightarrow> string" where
  "fmt_X w n =
     (if n < 0 then CHR ''-'' # zpad (w - 1) (hex_of_nat (nat (- n)))
      else zpad w (hex_of_nat (nat n)))"

subsection \<open>\<^verbatim>\<open>_fmt_cmd\<close>\<close>

definition fmt_cmd :: "string \<Rightarrow> int \<Rightarrow> int \<Rightarrow> int \<Rightarrow> error + string" where
  "fmt_cmd C HH E DDDD =
     (let s = ''*'' @ C @ fmt_X 2 HH @ fmt_X 0 E @ fmt_X 4 DDDD @ ''#''
      in if length s \<noteq> 10 then Inl (RuntimeError s) else Inr s)"

text \<open>The pattern \<^verbatim>\<open>*[0-9A-F][0-9A-F]{2}[0-9A-F][0-9A-F]{4}#\<close>.\<close>

definition is_upper_hex :: "char \<Rightarrow> bool" where
  "is_upper_hex c = (c \<in> set ''0123456789ABCDEF'')"

definition matches_frame :: "string \<Rightarrow> bool" where
  "matches_frame s =
     (case s of
        [a, c, h1, h2, e, d1, d2, d3, d4, z] \<Rightarrow>
          a = CHR ''*'' \<and> is_upper_hex c \<and> is_upper_hex h1 \<and> is_upper_hex h2 \<and>
          is_upper_hex e \<and> is_upper_hex d1 \<and> is_upper_hex d2 \<and> is_upper_hex d3 \<and>
          is_upper_hex d4 \<and> z = CHR ''#''
      | _ \<Rightarrow> False)"

subsection \<open>\<^verbatim>\<open>get_sampling_command\<close>\<close>

text \<open>\<^verbatim>\<open>list.index\<close>: the position of the first occurrence, \<^verbatim>\<open>ValueError\<close> when absent.\<close>

fun py_index :: "int list \<Rightarrow> int \<Rightarrow> error + nat" where
  "py_index [] x = Inl (ValueError Not_in_list)"
| "py_index (y # ys) x =
     (if y = x then Inr 0
      else (case py_index ys x of Inl e \<Rightarrow> Inl e | Inr i \<Rightarrow> Inr (Suc i)))"

definition allowed :: "int list" where
  "allowed = [1, 2, 4, 8, 16, 32, 64, 128, 256]"

definition get_sampling_command :: "int \<Rightarrow> int \<Rightarrow> error + string" where
  "get_sampling_command fs_ksps target =
     (if fs_ksps \<notin> set allowed then Inl (ValueError (Unsupported_fs_ksps fs_ksps))
      else
        (case (if target = 0 then Some (0x00000000 :: int)
               else if target = 1 then Some 0x00100000 else None) of
           None \<Rightarrow> Inl (ValueError Bad_target)
         | Some base \<Rightarrow>
             (case py_index allowed fs_ksps of
                Inl e \<Rightarrow> Inl e
              | Inr index \<Rightarrow> Inr (''*'' @ fmt_X 8 (base + int index) @ ''#''))))"

subsection \<open>\<^verbatim>\<open>convert_to_voltage\<close>\<close>

text \<open>
  Python computes \<^verbatim>\<open>(adc_value / MAX_ADC) * 5.0 * gain\<close> in binary floating point. The
  model computes the same expression over the rationals, of which every finite double is
  one. For a raw value of at most 20 bits the quotient by \<open>2 ^ 19\<close> and the product with
  \<open>5.0\<close> are exact in double precision.
\<close>

definition MAX_ADC :: int where
  "MAX_ADC = 524288"

definition convert_to_voltage :: "int \<Rightarrow> rat \<Rightarrow> rat" where
  "convert_to_voltage adc_value gain =
     (let adc_value = (if adc_value \<ge> MAX_ADC then adc_value - 2 * MAX_ADC else adc_value)
      in (of_int adc_value / of_int MAX_ADC) * 5 * gain)"

subsection \<open>The transport\<close>

text \<open>
  The FTDI handle is an external collaborator. Of its state the commands observe two
  things: the byte strings handed to \<^verbatim>\<open>handle.write\<close>, in order (\<open>tx\<close>), and what each
  successive call of \<^verbatim>\<open>_readline\<close> collects before its terminator or its timeout
  (\<open>rx\<close>; an exhausted list is a device that stays silent, so the call times out with
  no byte). The methods of the handle are taken not to raise; printing to the console is
  not represented, so the parameter \<^verbatim>\<open>print_response\<close> does not appear.
\<close>

record handle =
  tx :: "string list"
  rx :: "string list"

text \<open>
  Operations on the handle: state passing, with the raised exception or the returned
  value beside the handle as it is at that moment.
\<close>

type_synonym 'a io = "handle \<Rightarrow> (error + 'a) \<times> handle"

definition returnM :: "'a \<Rightarrow> 'a io" where
  "returnM x h = (Inr x, h)"

definition raiseM :: "error \<Rightarrow> 'a io" where
  "raiseM e h = (Inl e, h)"

definition liftM :: "error + 'a \<Rightarrow> 'a io" where
  "liftM r h = (r, h)"

definition bindM :: "'a io \<Rightarrow> ('a \<Rightarrow> 'b io) \<Rightarrow> 'b io" where
  "bindM m f h = (case m h of (Inl e, h') \<Rightarrow> (Inl e, h') | (Inr x, h') \<Rightarrow> f x h')"

text \<open>\<^verbatim>\<open>s.encode("ascii", errors="ignore")\<close> drops the characters above 127.\<close>

definition write_ascii :: "string \<Rightarrow> unit io" where
  "write_ascii s h = (Inr (), h\<lparr>tx := tx h @ [filter (\<lambda>c. \<not> digit7 c) s]\<rparr>)"

definition readline :: "string io" where
  "readline h = (case rx h of [] \<Rightarrow> (Inr [], h) | l # ls \<Rightarrow> (Inr l, h\<lparr>rx := ls\<rparr>))"

definition send_and_read_one_line :: "string \<Rightarrow> string io" where
  "send_and_read_one_line cmd = bindM (write_ascii cmd) (\<lambda>_. readline)"

text \<open>
  The closing lines of most commands:
  \<^verbatim>\<open>cmd = _fmt_cmd(...); _send_and_read_one_line(handle, cmd, ...); return cmd\<close>.
\<close>

definition send_frame :: "error + string \<Rightarrow> string io" where
  "send_frame frame =
     bindM (liftM frame) (\<lambda>cmd. bindM (send_and_read_one_line cmd) (\<lambda>_. returnM cmd))"

text \<open>
  \<^verbatim>\<open>cmds = []; for c in chs: cmd = ...; cmds.append(cmd); _send_and_read_one_line(...)\<close>:
  the body builds (or fails to build) and sends one frame per channel.
\<close>

fun for_each :: "(int \<Rightarrow> string io) \<Rightarrow> int list \<Rightarrow> string list \<Rightarrow> string list io" where
  "for_each body [] cmds h = (Inr cmds, h)"
| "for_each body (c # cs) cmds h =
     (case body c h of
        (Inl e, h') \<Rightarrow> (Inl e, h')
      | (Inr cmd, h') \<Rightarrow> for_each body cs (cmds @ [cmd]) h')"

subsection \<open>Channel selectors\<close>

text \<open>
  The values a caller can pass where a channel selection is expected: a string, an
  integer (\<^verbatim>\<open>bool\<close> included, as the integers 0 and 1), an iterable whose items are
  integers (\<open>Some n\<close>) or objects that \<^verbatim>\<open>int()\<close> rejects (\<open>None\<close>), or an object that
  is none of these, such as \<^verbatim>\<open>None\<close>.
\<close>

datatype chan_spec =
    Ch_str string
  | Ch_int int
  | Ch_iter "int option list"
  | Ch_other

definition lower_char :: "char \<Rightarrow> char" where
  "lower_char c =
     (let n = (of_char c :: nat) in if 65 \<le> n \<and> n \<le> 90 then char_of (n + 32) else c)"

definition lower :: "string \<Rightarrow> string" where
  "lower s = map lower_char s"

text \<open>\<^verbatim>\<open>int(x)\<close> of a one-character string: its value when it is a decimal digit.\<close>

definition int_of_char :: "char \<Rightarrow> int option" where
  "int_of_char c =
     (let n = (of_char c :: nat) in if 48 \<le> n \<and> n \<le> 57 then Some (int n - 48) else None)"

definition is_all :: "chan_spec \<Rightarrow> bool" where
  "is_all chs = (case chs of Ch_str s \<Rightarrow> lower s = ''all'' | _ \<Rightarrow> False)"

text \<open>
  The items the generator \<^verbatim>\<open>int(x) for x in chs\<close> runs over, after an integer has been
  wrapped in a list; iterating a string yields its characters.
\<close>

definition items_of :: "chan_spec \<Rightarrow> int option list option" where
  "items_of chs =
     (case chs of
        Ch_int n \<Rightarrow> Some [Some n]
      | Ch_str s \<Rightarrow> Some (map int_of_char s)
      | Ch_iter xs \<Rightarrow> Some xs
      | Ch_other \<Rightarrow> None)"

definition normalize_channels :: "chan_spec \<Rightarrow> int \<Rightarrow> error + int list" where
  "normalize_channels chs max_ch =
     (if is_all chs then Inr [0..max_ch]
      else
        (case items_of chs of
           None \<Rightarrow> Inl (ValueError Bad_ch_spec)
         | Some items \<Rightarrow>
             (case those items of
                None \<Rightarrow> Inl (ValueError Bad_ch_spec)
              | Some ints \<Rightarrow>
                  (let lst = sort (remdups ints)
                   in (case filter (\<lambda>c. \<not> (0 \<le> c \<and> c \<le> max_ch)) lst of
                         [] \<Rightarrow> Inr lst
                       | c # _ \<Rightarrow> Inl (ValueError (Ch_out_of_range max_ch c)))))))"

text \<open>\<^verbatim>\<open>m |= (1 << ch)\<close> over the list; Python rejects a negative shift count.\<close>

fun mask_loop :: "int \<Rightarrow> int list \<Rightarrow> error + int" where
  "mask_loop m [] = Inr m"
| "mask_loop m (ch # cs) =
     (if ch < 0 then Inl (ValueError Negative_shift)
      else mask_loop (m OR push_bit (nat ch) 1) cs)"

definition mask_from_channels :: "int list \<Rightarrow> error + int" where
  "mask_from_channels ch_list = mask_loop 0 ch_list"

text \<open>A list of integers built by the module itself, passed on as a selector.\<close>

definition as_spec :: "int list \<Rightarrow> chan_spec" where
  "as_spec cs = Ch_iter (map Some cs)"

subsection \<open>ADC commands\<close>

definition cmd_set_chunk_size :: "handle \<Rightarrow> int \<Rightarrow> int \<Rightarrow> (error + string) \<times> handle" where
  "cmd_set_chunk_size h ch chunk_size =
     (if \<not> (0 \<le> ch \<and> ch \<le> 0x0F) then raiseM (ValueError Ch_0_15)
      else if \<not> (0 \<le> chunk_size \<and> chunk_size \<le> 0x07FF) then raiseM (ValueError Chunk_size_0_2047)
      else send_frame (fmt_cmd ''1'' ch 0x0 chunk_size)) h"

definition cmd_start_accumulation :: "handle \<Rightarrow> (error + string) \<times> handle" where
  "cmd_start_accumulation h = send_frame (fmt_cmd ''4'' 0x00 0x2 0x0000) h"

definition cmd_set_chunk_num :: "handle \<Rightarrow> int \<Rightarrow> int \<Rightarrow> (error + string) \<times> handle" where
  "cmd_set_chunk_num h ch chunk_num =
     (if \<not> (0 \<le> ch \<and> ch \<le> 0x0F) then raiseM (ValueError Ch_0_15)
      else if \<not> (1 \<le> chunk_num \<and> chunk_num \<le> 0x10000) then raiseM (ValueError Chunk_num_1_65536)
      else (let field = (chunk_num - 1) AND 0xFFFF
            in send_frame (fmt_cmd ''4'' ch 0x1 field))) h"

definition cmd_stop_accumulation :: "handle \<Rightarrow> (error + string) \<times> handle" where
  "cmd_stop_accumulation h = send_frame (fmt_cmd ''4'' 0x00 0x3 0x0000) h"

text \<open>Returns the response line.\<close>

definition cmd_adc_single_sample :: "handle \<Rightarrow> int \<Rightarrow> (error + string) \<times> handle" where
  "cmd_adc_single_sample h ch =
     (if \<not> (0 \<le> ch \<and> ch \<le> 0x0F) then raiseM (ValueError Ch_0_15)
      else bindM (liftM (fmt_cmd ''4'' ch 0x0 0x0000)) (\<lambda>cmd.
           bindM (write_ascii cmd) (\<lambda>_.
           bindM readline (\<lambda>resp. returnM resp)))) h"

text \<open>The one command that reads no response.\<close>

definition cmd_adc_chunk_request :: "handle \<Rightarrow> int \<Rightarrow> int \<Rightarrow> (error + string) \<times> handle" where
  "cmd_adc_chunk_request h ch chunk_size =
     (if \<not> (0 \<le> ch \<and> ch \<le> 0x0F) then raiseM (ValueError Ch_0_15)
      else if \<not> (0 \<le> chunk_size \<and> chunk_size \<le> 0x07FF) then raiseM (ValueError Chunk_size_0_2047)
      else bindM (liftM (fmt_cmd ''4'' ch 0x1 chunk_size)) (\<lambda>cmd.
           bindM (write_ascii cmd) (\<lambda>_. returnM cmd))) h"

subsection \<open>DAC commands\<close>

definition cmd_set_ldac :: "handle \<Rightarrow> int \<Rightarrow> (error + string) \<times> handle" where
  "cmd_set_ldac h level =
     (if level \<notin> {0, 1} then raiseM (ValueError Ldac_level_0_1)
      else send_frame (fmt_cmd ''7'' 0x00 0x0 (level AND 0x000F))) h"

definition cmd_set_ldac_mask :: "handle \<Rightarrow> int \<Rightarrow> (error + string) \<times> handle" where
  "cmd_set_ldac_mask h mask_arg =
     (if \<not> (0x00 \<le> mask_arg \<and> mask_arg \<le> 0xFF) then raiseM (ValueError Mask_00_FF)
      else (let dddd = mask_arg AND 0xFF
            in send_frame (fmt_cmd ''8'' 0x00 0x0 dddd))) h"

definition cmd_dac_set_data :: "handle \<Rightarrow> int \<Rightarrow> int \<Rightarrow> (error + string) \<times> handle" where
  "cmd_dac_set_data h ch v =
     (if \<not> (0 \<le> ch \<and> ch \<le> 8) then raiseM (ValueError Dac_ch_0_8)
      else if \<not> (0x0000 \<le> v \<and> v \<le> 0xFFFF) then raiseM (ValueError Value_0000_FFFF)
      else send_frame (fmt_cmd ''6'' ch 0x1 v)) h"

definition cmd_dac_immediate_out :: "handle \<Rightarrow> int \<Rightarrow> int \<Rightarrow> (error + string) \<times> handle" where
  "cmd_dac_immediate_out h ch v =
     (if \<not> (0 \<le> ch \<and> ch \<le> 8) then raiseM (ValueError Dac_ch_0_8)
      else if \<not> (0x0000 \<le> v \<and> v \<le> 0xFFFF) then raiseM (ValueError Value_0000_FFFF)
      else send_frame (fmt_cmd ''6'' ch 0x3 v)) h"

definition cmd_set_opamp_gain :: "handle \<Rightarrow> int \<Rightarrow> int \<Rightarrow> (error + string) \<times> handle" where
  "cmd_set_opamp_gain h ch gain_code =
     (if \<not> (0 \<le> ch \<and> ch \<le> 0x0F) then raiseM (ValueError Ch_0_15)
      else if gain_code \<notin> {0, 1, 2, 3, 4} then raiseM (ValueError Gain_code_0_4)
      else send_frame (fmt_cmd ''5'' ch 0x0 (gain_code AND 0x000F))) h"

subsection \<open>GPIO direction and mode\<close>

definition cmd_set_gpio_dir :: "handle \<Rightarrow> chan_spec \<Rightarrow> chan_spec \<Rightarrow> (error + string) \<times> handle" where
  "cmd_set_gpio_dir h active_channels input_channels =
     (bindM (liftM (normalize_channels active_channels 7)) (\<lambda>act.
      bindM (liftM (normalize_channels input_channels 7)) (\<lambda>ins.
      bindM (liftM (mask_from_channels act)) (\<lambda>ma.
      bindM (liftM (mask_from_channels ins)) (\<lambda>mi.
        (let hh = ma AND 0xFF; dddd = mi AND 0xFFFF
         in send_frame (fmt_cmd ''9'' hh 0x0 dddd))))))) h"

definition cmd_set_gpio_pwm_mode :: "handle \<Rightarrow> chan_spec \<Rightarrow> chan_spec \<Rightarrow> (error + string) \<times> handle" where
  "cmd_set_gpio_pwm_mode h active_channels pwm_channels =
     (bindM (liftM (normalize_channels active_channels 7)) (\<lambda>act.
      bindM (liftM (normalize_channels pwm_channels 7)) (\<lambda>pwm.
      bindM (\<lambda>h. cmd_set_gpio_dir h (as_spec act) (as_spec [])) (\<lambda>_.
      bindM (liftM (mask_from_channels act)) (\<lambda>ma.
      bindM (liftM (mask_from_channels (filter (\<lambda>c. c \<in> set act) pwm))) (\<lambda>mp.
        (let hh = ma AND 0xFF; dd = mp AND 0xFFFF
         in send_frame (fmt_cmd ''A'' hh 0x0 dd)))))))) h"

definition cmd_set_encoder_mode :: "handle \<Rightarrow> chan_spec \<Rightarrow> (error + string) \<times> handle" where
  "cmd_set_encoder_mode h channels =
     (bindM (liftM (normalize_channels channels 3)) (\<lambda>chs.
      bindM (liftM (mask_from_channels chs)) (\<lambda>m.
        (let hh = m AND 0xFF
         in bindM (\<lambda>h. cmd_set_gpio_dir h (as_spec chs) (as_spec chs)) (\<lambda>_.
            bindM (send_frame (fmt_cmd ''A'' hh 0x0 0x0000)) (\<lambda>_.
            send_frame (fmt_cmd ''A'' hh 0x1 0x0000))))))) h"

subsection \<open>Encoder presets and control\<close>

definition norm_enc_ch :: "chan_spec \<Rightarrow> error + int list" where
  "norm_enc_ch ch =
     (if is_all ch then Inr [0, 1, 2, 3]
      else (case ch of
              Ch_int n \<Rightarrow> if 0 \<le> n \<and> n \<le> 3 then Inr [n] else Inl (ValueError Enc_ch_0_3_or_all)
            | _ \<Rightarrow> Inl (ValueError Enc_ch_0_3_or_all)))"

definition hh_from_single_ch :: "int \<Rightarrow> int" where
  "hh_from_single_ch ch = ch AND 0xFF"

definition cmd_encoder_preset_hi :: "handle \<Rightarrow> chan_spec \<Rightarrow> int \<Rightarrow> (error + string list) \<times> handle" where
  "cmd_encoder_preset_hi h ch value16 =
     (if \<not> (0x0000 \<le> value16 \<and> value16 \<le> 0xFFFF) then raiseM (ValueError Value16_0000_FFFF)
      else bindM (liftM (norm_enc_ch ch)) (\<lambda>chs.
             for_each (\<lambda>c. send_frame (fmt_cmd ''A'' (hh_from_single_ch c) 0x2 value16)) chs [])) h"

definition cmd_encoder_preset_lo :: "handle \<Rightarrow> chan_spec \<Rightarrow> int \<Rightarrow> (error + string list) \<times> handle" where
  "cmd_encoder_preset_lo h ch value16 =
     (if \<not> (0x0000 \<le> value16 \<and> value16 \<le> 0xFFFF) then raiseM (ValueError Value16_0000_FFFF)
      else bindM (liftM (norm_enc_ch ch)) (\<lambda>chs.
             for_each (\<lambda>c. send_frame (fmt_cmd ''A'' (hh_from_single_ch c) 0x3 value16)) chs [])) h"

definition cmd_encoder_preset_32 :: "handle \<Rightarrow> chan_spec \<Rightarrow> int \<Rightarrow> (error + string list) \<times> handle" where
  "cmd_encoder_preset_32 h ch value32 =
     (if \<not> (0x00000000 \<le> value32 \<and> value32 \<le> 0xFFFFFFFF) then raiseM (ValueError Value32_range)
      else (let hi = drop_bit 16 value32 AND 0xFFFF; lo = value32 AND 0xFFFF
            in bindM (\<lambda>h. cmd_encoder_preset_hi h ch hi) (\<lambda>cmds_hi.
               bindM (\<lambda>h. cmd_encoder_preset_lo h ch lo) (\<lambda>cmds_lo.
               returnM (cmds_hi @ cmds_lo))))) h"

text \<open>
  \<^verbatim>\<open>dir_invert\<close> is \<^verbatim>\<open>None\<close>, \<^verbatim>\<open>True\<close> or \<^verbatim>\<open>False\<close>; only \<^verbatim>\<open>True\<close> sets bit 0.
\<close>

definition encoder_ctrl_data :: "bool option \<Rightarrow> bool \<Rightarrow> bool \<Rightarrow> int" where
  "encoder_ctrl_data dir_invert do_reset load_preset =
     (let d = 0x0000;
          d = (if dir_invert = Some True then d OR push_bit 0 1
               else if dir_invert = Some False then d OR 0 else d);
          d = (if do_reset then d OR push_bit 1 1 else d);
          d = (if load_preset then d OR push_bit 2 1 else d)
      in d)"

definition cmd_encoder_ctrl ::
  "handle \<Rightarrow> chan_spec \<Rightarrow> bool option \<Rightarrow> bool \<Rightarrow> bool \<Rightarrow> (error + string list) \<times> handle" where
  "cmd_encoder_ctrl h channels dir_invert do_reset load_preset =
     (if do_reset \<and> load_preset then raiseM (ValueError Reset_and_preset)
      else bindM (liftM (normalize_channels channels 3)) (\<lambda>chs.
             for_each (\<lambda>ch. send_frame (fmt_cmd ''A'' (hh_from_single_ch ch) 0x4
                                          (encoder_ctrl_data dir_invert do_reset load_preset)))
               chs [])) h"

definition cmd_encoder_dir_invert :: "handle \<Rightarrow> chan_spec \<Rightarrow> bool \<Rightarrow> (error + string list) \<times> handle" where
  "cmd_encoder_dir_invert h channels invert = cmd_encoder_ctrl h channels (Some invert) False False"

definition cmd_encoder_count_reset :: "handle \<Rightarrow> chan_spec \<Rightarrow> (error + string list) \<times> handle" where
  "cmd_encoder_count_reset h channels = cmd_encoder_ctrl h channels None True False"

definition cmd_encoder_load_preset :: "handle \<Rightarrow> chan_spec \<Rightarrow> (error + string list) \<times> handle" where
  "cmd_encoder_load_preset h channels = cmd_encoder_ctrl h channels None False True"

subsection \<open>PWM\<close>

text \<open>The body of the loop of \<^verbatim>\<open>cmd_pwm_set_frequency\<close>: band selection, then the frame.\<close>

definition pwm_frequency_frame :: "int \<Rightarrow> int \<Rightarrow> error + string" where
  "pwm_frequency_frame freq_hz ch =
     (if 0 \<le> freq_hz \<and> freq_hz \<le> 4095 then fmt_cmd ''B'' ch 0x0 freq_hz
      else if freq_hz mod 1000 = 0 \<and> 0 \<le> freq_hz div 1000 \<and> freq_hz div 1000 \<le> 97
        then fmt_cmd ''B'' ch 0x0 (0x8000 + freq_hz div 1000)
      else Inl (ValueError Freq_not_encodable))"

definition cmd_pwm_set_frequency :: "handle \<Rightarrow> chan_spec \<Rightarrow> int \<Rightarrow> (error + string list) \<times> handle" where
  "cmd_pwm_set_frequency h channels freq_hz =
     (if freq_hz < 0 then raiseM (ValueError Freq_negative)
      else bindM (liftM (normalize_channels channels 7)) (\<lambda>chs.
             for_each (\<lambda>ch. send_frame (pwm_frequency_frame freq_hz ch)) chs [])) h"

definition cmd_pwm_set_data_raw :: "handle \<Rightarrow> chan_spec \<Rightarrow> int \<Rightarrow> (error + string list) \<times> handle" where
  "cmd_pwm_set_data_raw h channels dddd =
     (if \<not> (0x0000 \<le> dddd \<and> dddd \<le> 0x03FF) then raiseM (ValueError Dddd_0000_03FF)
      else bindM (liftM (normalize_channels channels 7)) (\<lambda>chs.
             for_each (\<lambda>ch. send_frame (fmt_cmd ''C'' ch 0x0 dddd)) chs [])) h"

text \<open>
  The duty is a Python float. Every finite double is a rational number, and on the
  doubles in \<open>[0, 1]\<close> the operations used are those of the rationals: the product
  with 1024 is a scaling by a power of two, \<^verbatim>\<open>1/1024\<close> is a double, and the difference
  \<^verbatim>\<open>duty - 0.5\<close> is exact for \<open>duty \<ge> 1/4\<close> and otherwise rounds to a double of magnitude
  at least \<open>1/4\<close>, which decides the comparison with \<^verbatim>\<open>1/1024\<close> the same way. A NaN
  fails the first comparison as every rational outside \<open>[0, 1]\<close> does.
  \<^verbatim>\<open>int()\<close> truncates towards zero.
\<close>

definition py_int :: "rat \<Rightarrow> int" where
  "py_int x = (if 0 \<le> x then \<lfloor>x\<rfloor> else \<lceil>x\<rceil>)"

text \<open>The value of the local variable \<^verbatim>\<open>code\<close> of \<^verbatim>\<open>cmd_pwm_set_duty\<close>.\<close>

definition pwm_duty_code :: "rat \<Rightarrow> int" where
  "pwm_duty_code duty =
     (if duty = 0 then 0x0000
      else if duty = 1 then 0x03FF
      else (let ticks = py_int (duty * 1024)
            in if ticks \<le> 0 then 0x0001
               else if ticks \<ge> 1023 then 0x03FE
               else (if \<bar>duty - 1 / 2\<bar> < 1 / 1024 then 0x01FF else ticks)))"

definition cmd_pwm_set_duty :: "handle \<Rightarrow> chan_spec \<Rightarrow> rat \<Rightarrow> (error + string list) \<times> handle" where
  "cmd_pwm_set_duty h channels duty =
     (if \<not> (0 \<le> duty \<and> duty \<le> 1) then raiseM (ValueError Duty_0_1) h
      else cmd_pwm_set_data_raw h channels (pwm_duty_code duty))"

subsection \<open>Reply text\<close>

text \<open>
  \<^verbatim>\<open>resp.decode(errors="ignore")\<close> decodes UTF-8 and drops every byte that is not part of
  a well-formed sequence. The text is a list of code points. A byte that cannot start or
  continue a sequence is skipped and decoding resumes at the next byte.
\<close>

definition cont :: "nat \<Rightarrow> bool" where
  "cont c = (0x80 \<le> c \<and> c \<le> 0xBF)"

definition second_ok :: "nat \<Rightarrow> nat \<Rightarrow> bool" where
  "second_ok b c =
     (if b = 0xE0 then 0xA0 \<le> c \<and> c \<le> 0xBF
      else if b = 0xED then 0x80 \<le> c \<and> c \<le> 0x9F
      else if b = 0xF0 then 0x90 \<le> c \<and> c \<le> 0xBF
      else if b = 0xF4 then 0x80 \<le> c \<and> c \<le> 0x8F
      else cont c)"

function utf8_decode :: "nat list \<Rightarrow> nat list" where
  "utf8_decode [] = []"
| "utf8_decode (b # bs) =
     (if b < 0x80 then b # utf8_decode bs
      else if 0xC2 \<le> b \<and> b \<le> 0xDF \<and> 1 \<le> length bs \<and> cont (bs ! 0)
        then ((b - 0xC0) * 64 + (bs ! 0 - 0x80)) # utf8_decode (drop 1 bs)
      else if 0xE0 \<le> b \<and> b \<le> 0xEF \<and> 2 \<le> length bs \<and> second_ok b (bs ! 0) \<and> cont (bs ! 1)
        then ((b - 0xE0) * 4096 + (bs ! 0 - 0x80) * 64 + (bs ! 1 - 0x80)) # utf8_decode (drop 2 bs)
      else if 0xF0 \<le> b \<and> b \<le> 0xF4 \<and> 3 \<le> length bs \<and> second_ok b (bs ! 0) \<and> cont (bs ! 1)
              \<and> cont (bs ! 2)
        then ((b - 0xF0) * 262144 + (bs ! 0 - 0x80) * 4096 + (bs ! 1 - 0x80) * 64 + (bs ! 2 - 0x80))
             # utf8_decode (drop 3 bs)
      else utf8_decode bs)"
  by pat_completeness auto
termination
  by (relation "measure length") auto

definition decode_ignore :: "string \<Rightarrow> nat list" where
  "decode_ignore resp = utf8_decode (map of_char resp)"

text \<open>\<^verbatim>\<open>str.strip()\<close> removes the code points for which \<^verbatim>\<open>str.isspace\<close> holds, at both ends.\<close>

definition is_space :: "nat \<Rightarrow> bool" where
  "is_space c =
     ((9 \<le> c \<and> c \<le> 13) \<or> (28 \<le> c \<and> c \<le> 32) \<or> c = 0x85 \<or> c = 0xA0 \<or> c = 0x1680
      \<or> (0x2000 \<le> c \<and> c \<le> 0x200A) \<or> c = 0x2028 \<or> c = 0x2029 \<or> c = 0x202F
      \<or> c = 0x205F \<or> c = 0x3000)"

definition strip :: "nat list \<Rightarrow> nat list" where
  "strip t = rev (dropWhile is_space (rev (dropWhile is_space t)))"

text \<open>
  \<^verbatim>\<open>str.upper()\<close>, code point by code point: exact on ASCII and on the six code points
  above it whose upper-case form contains one of the characters 0-9 and A-F (a ligature
  becomes two or three letters). Every other code point has an upper-case form with no
  such character; it stands for its own upper-case form here, since the text is only
  scanned for these sixteen characters.
\<close>

definition upper_cp :: "nat \<Rightarrow> nat list" where
  "upper_cp c =
     (if 97 \<le> c \<and> c \<le> 122 then [c - 32]
      else if c = 0x1E9A then [0x41, 0x2BE]
      else if c = 0xFB00 then [0x46, 0x46]
      else if c = 0xFB01 then [0x46, 0x49]
      else if c = 0xFB02 then [0x46, 0x4C]
      else if c = 0xFB03 then [0x46, 0x46, 0x49]
      else if c = 0xFB04 then [0x46, 0x46, 0x4C]
      else [c])"

definition upper :: "nat list \<Rightarrow> nat list" where
  "upper t = concat (map upper_cp t)"

text \<open>\<^verbatim>\<open>c in "0123456789ABCDEF"\<close>.\<close>

definition is_hex_cp :: "nat \<Rightarrow> bool" where
  "is_hex_cp c = ((48 \<le> c \<and> c \<le> 57) \<or> (65 \<le> c \<and> c \<le> 70))"

text \<open>
  \<^verbatim>\<open>int(s, 16)\<close> on the strings that reach it, which consist of characters 0-9 and A-F:
  \<open>None\<close> stands for the \<^verbatim>\<open>ValueError\<close> Python raises on the empty string and on any
  other character.
\<close>

definition hex_val :: "nat \<Rightarrow> int option" where
  "hex_val c =
     (if 48 \<le> c \<and> c \<le> 57 then Some (int c - 48)
      else if 65 \<le> c \<and> c \<le> 70 then Some (int c - 55)
      else None)"

fun int16_acc :: "int \<Rightarrow> nat list \<Rightarrow> int option" where
  "int16_acc acc [] = Some acc"
| "int16_acc acc (c # cs) =
     (case hex_val c of None \<Rightarrow> None | Some d \<Rightarrow> int16_acc (16 * acc + d) cs)"

definition int16 :: "nat list \<Rightarrow> int option" where
  "int16 s = (if s = [] then None else int16_acc 0 s)"

subsection \<open>GPIO read, encoder status\<close>

text \<open>
  The scan of \<^verbatim>\<open>cmd_gpio_read\<close>: \<open>gpio_hx\<close> is the local variable \<^verbatim>\<open>hx\<close>, and
  \<open>gpio_value\<close> the variable \<^verbatim>\<open>value\<close> after the \<^verbatim>\<open>try\<close> block, whose
  \<^verbatim>\<open>except Exception: pass\<close> leaves it at \<open>-1\<close>.
\<close>

definition gpio_hx :: "string \<Rightarrow> nat list" where
  "gpio_hx resp =
     (let txt = (if resp \<noteq> [] then upper (strip (decode_ignore resp)) else [])
      in filter is_hex_cp txt)"

definition gpio_value :: "string \<Rightarrow> int" where
  "gpio_value resp =
     (let hx = gpio_hx resp
      in if length hx \<ge> 2
         then (case int16 (drop (length hx - 2) hx) of None \<Rightarrow> - 1 | Some v \<Rightarrow> v)
         else - 1)"

definition cmd_gpio_read :: "handle \<Rightarrow> (error + string \<times> int \<times> string) \<times> handle" where
  "cmd_gpio_read h =
     (bindM (liftM (fmt_cmd ''D'' 0x00 0x0 0x0000)) (\<lambda>cmd.
      bindM (write_ascii cmd) (\<lambda>_.
      bindM readline (\<lambda>resp.
      returnM (cmd, gpio_value resp, resp))))) h"

text \<open>
  Of the dictionary \<^verbatim>\<open>cmd_encoder_status_read\<close> returns, the entries \<^verbatim>\<open>raw\<close> and
  \<^verbatim>\<open>ch\<close> are represented. The entries \<^verbatim>\<open>count\<close>, \<^verbatim>\<open>dir\<close>, \<^verbatim>\<open>ovf\<close> and \<^verbatim>\<open>ae\<close> are filled
  by a parse inside \<^verbatim>\<open>try: ... except Exception: pass\<close>, which neither raises nor
  touches the handle.
\<close>

definition cmd_encoder_status_read :: "handle \<Rightarrow> int \<Rightarrow> (error + nat list \<times> int) \<times> handle" where
  "cmd_encoder_status_read h channel =
     (if \<not> (0 \<le> channel \<and> channel \<le> 3) then raiseM (ValueError Channel_0_3)
      else bindM (liftM (fmt_cmd ''D'' channel 0x1 0x0000)) (\<lambda>cmd.
           bindM (write_ascii cmd) (\<lambda>_.
           bindM readline (\<lambda>resp.
             (let txt = (if resp \<noteq> [] then strip (decode_ignore resp) else [])
              in returnM (txt, channel)))))) h"

subsection \<open>GPIO write, reset\<close>

definition cmd_gpio_write :: "handle \<Rightarrow> int \<Rightarrow> (error + string) \<times> handle" where
  "cmd_gpio_write h v =
     (if \<not> (0x00 \<le> v \<and> v \<le> 0xFF) then raiseM (ValueError Value_00_FF)
      else send_frame (fmt_cmd ''E'' 0x00 0x0 (v AND 0x00FF))) h"

definition cmd_gpio_write_mask :: "handle \<Rightarrow> chan_spec \<Rightarrow> (error + string) \<times> handle" where
  "cmd_gpio_write_mask h high_channels =
     (bindM (liftM (normalize_channels high_channels 7)) (\<lambda>chs.
      bindM (liftM (mask_loop 0 chs)) (\<lambda>m.
        (\<lambda>h. cmd_gpio_write h (m AND 0xFF))))) h"

definition cmd_reset :: "handle \<Rightarrow> string \<Rightarrow> (error + string) \<times> handle" where
  "cmd_reset h mode =
     (if mode \<notin> {''all'', ''adc''} then raiseM (ValueError Mode_all_or_adc)
      else (let dddd = (if mode = ''all'' then 0x0000 else 0x0001)
            in send_frame (fmt_cmd ''F'' 0x00 0x0 dddd))) h"

definition cmd_reset_all :: "handle \<Rightarrow> (error + string) \<times> handle" where
  "cmd_reset_all h = cmd_reset h ''all''"

definition cmd_reset_adc_tx :: "handle \<Rightarrow> (error + string) \<times> handle" where
  "cmd_reset_adc_tx h = cmd_reset h ''adc''"

subsection \<open>The catalogue\<close>

text \<open>
  Every operation of the module that takes the handle, with its arguments, so that a
  statement can range over all of them. \<open>outcome\<close> runs a call and keeps the exception,
  if one was raised, and the handle as the call left it.
\<close>

datatype call =
    Set_chunk_size int int
  | Start_accumulation
  | Set_chunk_num int int
  | Stop_accumulation
  | Adc_single_sample int
  | Adc_chunk_request int int
  | Set_ldac int
  | Set_ldac_mask int
  | Dac_set_data int int
  | Dac_immediate_out int int
  | Set_opamp_gain int int
  | Set_gpio_dir chan_spec chan_spec
  | Set_gpio_pwm_mode chan_spec chan_spec
  | Set_encoder_mode chan_spec
  | Encoder_preset_hi chan_spec int
  | Encoder_preset_lo chan_spec int
  | Encoder_preset_32 chan_spec int
  | Encoder_ctrl chan_spec "bool option" bool bool
  | Encoder_dir_invert chan_spec bool
  | Encoder_count_reset chan_spec
  | Encoder_load_preset chan_spec
  | Pwm_set_frequency chan_spec int
  | Pwm_set_data_raw chan_spec int
  | Pwm_set_duty chan_spec rat
  | Gpio_read
  | Encoder_status_read int
  | Gpio_write int
  | Gpio_write_mask chan_spec
  | Reset string
  | Reset_all
  | Reset_adc_tx

definition raised :: "(error + 'a) \<times> handle \<Rightarrow> error option \<times> handle" where
  "raised r = (case r of (Inl e, h') \<Rightarrow> (Some e, h') | (Inr _, h') \<Rightarrow> (None, h'))"

fun outcome :: "handle \<Rightarrow> call \<Rightarrow> error option \<times> handle" where
  "outcome h (Set_chunk_size ch n) = raised (cmd_set_chunk_size h ch n)"
| "outcome h Start_accumulation = raised (cmd_start_accumulation h)"
| "outcome h (Set_chunk_num ch n) = raised (cmd_set_chunk_num h ch n)"
| "outcome h Stop_accumulation = raised (cmd_stop_accumulation h)"
| "outcome h (Adc_single_sample ch) = raised (cmd_adc_single_sample h ch)"
| "outcome h (Adc_chunk_request ch n) = raised (cmd_adc_chunk_request h ch n)"
| "outcome h (Set_ldac level) = raised (cmd_set_ldac h level)"
| "outcome h (Set_ldac_mask m) = raised (cmd_set_ldac_mask h m)"
| "outcome h (Dac_set_data ch v) = raised (cmd_dac_set_data h ch v)"
| "outcome h (Dac_immediate_out ch v) = raised (cmd_dac_immediate_out h ch v)"
| "outcome h (Set_opamp_gain ch g) = raised (cmd_set_opamp_gain h ch g)"
| "outcome h (Set_gpio_dir a i) = raised (cmd_set_gpio_dir h a i)"
| "outcome h (Set_gpio_pwm_mode a p) = raised (cmd_set_gpio_pwm_mode h a p)"
| "outcome h (Set_encoder_mode chs) = raised (cmd_set_encoder_mode h chs)"
| "outcome h (Encoder_preset_hi ch v) = raised (cmd_encoder_preset_hi h ch v)"
| "outcome h (Encoder_preset_lo ch v) = raised (cmd_encoder_preset_lo h ch v)"
| "outcome h (Encoder_preset_32 ch v) = raised (cmd_encoder_preset_32 h ch v)"
| "outcome h (Encoder_ctrl chs d r l) = raised (cmd_encoder_ctrl h chs d r l)"
| "outcome h (Encoder_dir_invert chs b) = raised (cmd_encoder_dir_invert h chs b)"
| "outcome h (Encoder_count_reset chs) = raised (cmd_encoder_count_reset h chs)"
| "outcome h (Encoder_load_preset chs) = raised (cmd_encoder_load_preset h chs)"
| "outcome h (Pwm_set_frequency chs f) = raised (cmd_pwm_set_frequency h chs f)"
| "outcome h (Pwm_set_data_raw chs d) = raised (cmd_pwm_set_data_raw h chs d)"
| "outcome h (Pwm_set_duty chs d) = raised (cmd_pwm_set_duty h chs d)"
| "outcome h Gpio_read = raised (cmd_gpio_read h)"
| "outcome h (Encoder_status_read ch) = raised (cmd_encoder_status_read h ch)"
| "outcome h (Gpio_write v) = raised (cmd_gpio_write h v)"
| "outcome h (Gpio_write_mask chs) = raised (cmd_gpio_write_mask h chs)"
| "outcome h (Reset mode) = raised (cmd_reset h mode)"
| "outcome h Reset_all = raised (cmd_reset_all h)"
| "outcome h Reset_adc_tx = raised (cmd_reset_adc_tx h)"

text \<open>
  A call is all-or-nothing when an exception, if one is raised, leaves the handle as it
  was: nothing written, nothing read.
\<close>

definition untouched :: "(error + 'a) \<times> handle \<Rightarrow> handle \<Rightarrow> bool" where
  "untouched r h = (case fst r of Inl e \<Rightarrow> snd r = h | Inr _ \<Rightarrow> True)"

subsection \<open>The channel arguments the specification gives the encoder presets\<close>

text \<open>
  Written from the words of the specification, for comparison with \<^verbatim>\<open>_norm_enc_ch\<close>: the
  string \<^verbatim>\<open>all\<close> in any mix of upper and lower case, or one integer from 0 to 3.
\<close>

definition all_or_single_0_3 :: "chan_spec \<Rightarrow> bool" where
  "all_or_single_0_3 ch =
     (case ch of
        Ch_str s \<Rightarrow> s \<in> set [''all'', ''alL'', ''aLl'', ''aLL'', ''All'', ''AlL'', ''ALl'', ''ALL'']
      | Ch_int n \<Rightarrow> 0 \<le> n \<and> n \<le> 3
      | _ \<Rightarrow> False)"

section \<open>Properties\<close>

subsection \<open>Hexadecimal formatting\<close>

lemma hexdigit_upper: "d < 16 \<Longrightarrow> is_upper_hex (hexdigit d)"
  unfolding hexdigit_def is_upper_hex_def by (rule nth_mem) simp

lemma is_upper_hex_zero: "is_upper_hex (CHR ''0'')"
  by (simp add: is_upper_hex_def)

lemma hex_of_nat_chars: "list_all is_upper_hex (hex_of_nat n)"
proof (induction n rule: hex_of_nat.induct)
  case (1 n)
  show ?case
  proof (cases "n < 16")
    case True
    then show ?thesis by (simp add: hex_of_nat.simps [of n] hexdigit_upper)
  next
    case False
    with 1 show ?thesis by (simp add: hex_of_nat.simps [of n] hexdigit_upper)
  qed
qed

lemma hex_of_nat_length: "n < 16 ^ k \<Longrightarrow> 0 < k \<Longrightarrow> length (hex_of_nat n) \<le> k"
proof (induction n arbitrary: k rule: hex_of_nat.induct)
  case (1 n)
  show ?case
  proof (cases "n < 16")
    case True
    with 1 show ?thesis by (simp add: hex_of_nat.simps [of n] Suc_leI)
  next
    case False
    from 1(3) obtain j where k: "k = Suc j" by (cases k) auto
    with False 1(2) have j: "0 < j" by (cases j) auto
    from 1(2) k have "n div 16 < 16 ^ j"
      by (simp add: less_mult_imp_div_less mult.commute)
    from 1(1) [OF False this j] False k show ?thesis
      by (simp add: hex_of_nat.simps [of n])
  qed
qed

lemma zpad_length: "length s \<le> w \<Longrightarrow> length (zpad w s) = w"
  by (simp add: zpad_def)

lemma zpad_chars: "list_all is_upper_hex s \<Longrightarrow> list_all is_upper_hex (zpad w s)"
  by (auto simp: zpad_def list_all_iff is_upper_hex_zero)

lemma fmt_X_length:
  assumes "0 \<le> n" "n < 16 ^ w" "0 < w"
  shows "length (fmt_X w n) = w"
proof -
  from assms have "nat n < 16 ^ w"
    by (simp add: nat_less_iff)
  then have "length (hex_of_nat (nat n)) \<le> w"
    using assms(3) by (rule hex_of_nat_length)
  with assms(1) show ?thesis
    by (simp add: fmt_X_def zpad_length)
qed

lemma fmt_X_chars: "0 \<le> n \<Longrightarrow> list_all is_upper_hex (fmt_X w n)"
  by (simp add: fmt_X_def zpad_chars hex_of_nat_chars)

lemma fmt_X_0_length:
  assumes "0 \<le> n" "n < 16"
  shows "length (fmt_X 0 n) = 1"
proof -
  from assms have "nat n < 16" by simp
  with assms(1) show ?thesis
    by (simp add: fmt_X_def zpad_def hex_of_nat.simps [of "nat n"])
qed

lemma replicate_small:
  "replicate 1 x = [x]" "replicate 2 x = [x, x]" "replicate 3 x = [x, x, x]"
  "replicate 4 x = [x, x, x, x]" "replicate 5 x = [x, x, x, x, x]"
  "replicate 6 x = [x, x, x, x, x, x]" "replicate 7 x = [x, x, x, x, x, x, x]"
  by (simp_all add: eval_nat_numeral)

text \<open>The equations that evaluate a frame on numerals.\<close>

lemmas fmt_eval = fmt_cmd_def fmt_X_def zpad_def hex_of_nat.simps hexdigit_def replicate_small

lemma list_len1: "length xs = Suc 0 \<Longrightarrow> \<exists>a. xs = [a]"
  by (cases xs) auto

lemma list_len2: "length xs = 2 \<Longrightarrow> \<exists>a b. xs = [a, b]"
  by (auto simp: length_Suc_conv eval_nat_numeral)

lemma list_len4: "length xs = 4 \<Longrightarrow> \<exists>a b c d. xs = [a, b, c, d]"
  by (auto simp: length_Suc_conv eval_nat_numeral)

subsection \<open>The sampling-rate frame\<close>

text \<open>
  C1, as the code has it. The table \<open>[1, 2, 4, 8, 16, 32, 64, 128, 256]\<close> holds 64 at
  position 6, counted from 0 as \<^verbatim>\<open>list.index\<close> counts. For the rate 64 the frame body is
  \<open>00000006\<close> for target 0 and \<open>00100006\<close> for target 1; the rate 3 is rejected with a
  \<^verbatim>\<open>ValueError\<close> whatever the target.
\<close>

theorem sampling_command_64:
  "py_index allowed 64 = Inr 6
   \<and> get_sampling_command 64 0 = Inr ''*00000006#''
   \<and> get_sampling_command 64 1 = Inr ''*00100006#''
   \<and> get_sampling_command 3 target = Inl (ValueError (Unsupported_fs_ksps 3))"
proof (intro conjI)
  show "py_index allowed 64 = Inr 6"
    by (simp add: allowed_def)
  show "get_sampling_command 64 0 = Inr ''*00000006#''"
    by (simp add: get_sampling_command_def allowed_def fmt_eval)
  show "get_sampling_command 64 1 = Inr ''*00100006#''"
    by (simp add: get_sampling_command_def allowed_def fmt_eval)
  show "get_sampling_command 3 target = Inl (ValueError (Unsupported_fs_ksps 3))"
    by (simp add: get_sampling_command_def allowed_def)
qed

text \<open>
  C1, as the specification states it: the body \<open>00000005\<close> for the rate 64 and target 0
  (and \<open>00100005\<close> for target 1) is not what the function returns.
\<close>

theorem sampling_command_64_not_index_5:
  "get_sampling_command 64 0 \<noteq> Inr ''*00000005#''
   \<and> get_sampling_command 64 1 \<noteq> Inr ''*00100005#''"
  by (simp add: get_sampling_command_def allowed_def fmt_eval)

subsection \<open>The frame encoder\<close>

text \<open>
  C2. For a code that is one character of 0-9A-F, a sub field in \<open>[0x00, 0xFF]\<close>, an ext
  field in \<open>[0x0, 0xF]\<close> and a data field in \<open>[0x0000, 0xFFFF]\<close>, \<^verbatim>\<open>_fmt_cmd\<close> returns a
  string of length 10 that matches \<^verbatim>\<open>*[0-9A-F][0-9A-F]{2}[0-9A-F][0-9A-F]{4}#\<close>, and it
  raises nothing: the branch for a length other than 10 is not taken.
\<close>

theorem fmt_cmd_frame:
  assumes C: "C = [c]" "is_upper_hex c"
    and HH: "0 \<le> HH" "HH \<le> 0xFF"
    and E: "0 \<le> E" "E \<le> 0xF"
    and D: "0 \<le> DDDD" "DDDD \<le> 0xFFFF"
  shows "\<exists>s. fmt_cmd C HH E DDDD = Inr s \<and> length s = 10 \<and> matches_frame s
           \<and> (\<forall>e. fmt_cmd C HH E DDDD \<noteq> Inl e)"
proof -
  have l2: "length (fmt_X 2 HH) = 2" using HH by (intro fmt_X_length) auto
  have l1: "length (fmt_X 0 E) = 1" using E by (intro fmt_X_0_length) auto
  have l4: "length (fmt_X 4 DDDD) = 4" using D by (intro fmt_X_length) auto
  from l2 obtain h1 h2 where h: "fmt_X 2 HH = [h1, h2]" using list_len2 by blast
  from l1 obtain e1 where e: "fmt_X 0 E = [e1]" using list_len1 by auto
  from l4 obtain d1 d2 d3 d4 where d: "fmt_X 4 DDDD = [d1, d2, d3, d4]" using list_len4 by blast
  have "is_upper_hex h1 \<and> is_upper_hex h2"
    using fmt_X_chars [OF HH(1), of 2] h by simp
  moreover have "is_upper_hex e1"
    using fmt_X_chars [OF E(1), of 0] e by simp
  moreover have "is_upper_hex d1 \<and> is_upper_hex d2 \<and> is_upper_hex d3 \<and> is_upper_hex d4"
    using fmt_X_chars [OF D(1), of 4] d by simp
  ultimately show ?thesis
    using C h e d by (simp add: fmt_cmd_def matches_frame_def)
qed

theorem fmt_cmd_frame_witness:
  "is_upper_hex (CHR ''B'') \<and> fmt_cmd ''B'' 0xFF 0xF 0xFFFF = Inr ''*BFFFFFFF#''
   \<and> (\<exists>s. fmt_cmd ''B'' 0xFF 0xF 0xFFFF = Inr s \<and> length s = 10 \<and> matches_frame s
           \<and> (\<forall>e. fmt_cmd ''B'' 0xFF 0xF 0xFFFF \<noteq> Inl e))"
proof -
  have c: "is_upper_hex (CHR ''B'')" by (simp add: is_upper_hex_def)
  have v: "fmt_cmd ''B'' 0xFF 0xF 0xFFFF = Inr ''*BFFFFFFF#''" by (simp add: fmt_eval)
  from c v fmt_cmd_frame [of "''B''" "CHR ''B''" "0xFF" "0xF" "0xFFFF"] show ?thesis
    by simp
qed

subsection \<open>Sending frames\<close>

lemma bindM_liftM_Inl: "bindM (liftM (Inl e)) f h = (Inl e, h)"
  by (simp add: bindM_def liftM_def)

lemma bindM_liftM_Inr: "bindM (liftM (Inr x)) f h = f x h"
  by (simp add: bindM_def liftM_def)

lemma bindM_returnM: "bindM (returnM x) f h = f x h"
  by (simp add: bindM_def returnM_def)

lemma send_and_read_one_line_eq:
  "send_and_read_one_line cmd h =
     (Inr (case rx h of [] \<Rightarrow> [] | l # _ \<Rightarrow> l),
      h\<lparr>tx := tx h @ [filter (\<lambda>c. \<not> digit7 c) cmd], rx := tl (rx h)\<rparr>)"
  by (cases "rx h") (simp_all add: send_and_read_one_line_def bindM_def write_ascii_def readline_def)

lemma send_frame_Inl: "send_frame (Inl e) h = (Inl e, h)"
  by (simp add: send_frame_def bindM_liftM_Inl)

lemma send_frame_Inr:
  "send_frame (Inr cmd) h =
     (Inr cmd, h\<lparr>tx := tx h @ [filter (\<lambda>c. \<not> digit7 c) cmd], rx := tl (rx h)\<rparr>)"
  by (simp add: send_frame_def bindM_def liftM_def returnM_def send_and_read_one_line_eq)

lemma untouched_raiseM: "untouched (raiseM e h) h"
  by (simp add: untouched_def raiseM_def)

lemma untouched_iff: "untouched r h \<longleftrightarrow> (\<forall>e. fst r = Inl e \<longrightarrow> snd r = h)"
  by (cases "fst r") (simp_all add: untouched_def)

lemma untouched_send_frame: "untouched (send_frame frame h) h"
  by (cases frame) (simp_all add: untouched_def send_frame_Inl send_frame_Inr)

lemma for_each_ok:
  "\<forall>c\<in>set cs. \<exists>s. f c = Inr s \<Longrightarrow>
   \<exists>r h'. for_each (\<lambda>c. send_frame (f c)) cs acc h = (Inr r, h')"
proof (induction cs arbitrary: acc h)
  case Nil
  then show ?case by simp
next
  case (Cons c cs)
  from Cons.prems obtain s where s: "f c = Inr s" by auto
  from Cons.prems have "\<forall>c\<in>set cs. \<exists>s. f c = Inr s" by simp
  from Cons.IH [OF this] s show ?case
    by (simp add: send_frame_Inr)
qed

lemma for_each_head_fails:
  "f c = Inl e \<Longrightarrow> for_each (\<lambda>c. send_frame (f c)) (c # cs) acc h = (Inl e, h)"
  by (simp add: send_frame_Inl)

lemma untouched_for_each:
  assumes "(\<forall>c\<in>set cs. \<exists>s. f c = Inr s) \<or> (\<forall>c\<in>set cs. \<exists>e. f c = Inl e)"
  shows "untouched (for_each (\<lambda>c. send_frame (f c)) cs acc h) h"
proof (cases cs)
  case Nil
  then show ?thesis by (simp add: untouched_def)
next
  case (Cons c cs')
  from assms show ?thesis
  proof
    assume "\<forall>c\<in>set cs. \<exists>s. f c = Inr s"
    from for_each_ok [OF this, of acc h] obtain r h'
      where "for_each (\<lambda>c. send_frame (f c)) cs acc h = (Inr r, h')" by blast
    then show ?thesis by (simp add: untouched_def)
  next
    assume "\<forall>c\<in>set cs. \<exists>e. f c = Inl e"
    with Cons obtain e where "f c = Inl e" by auto
    with Cons show ?thesis by (simp add: untouched_def send_frame_Inl)
  qed
qed

subsection \<open>Channel lists\<close>

lemma normalize_channels_range:
  assumes "normalize_channels chs m = Inr cl"
  shows "\<forall>c\<in>set cl. 0 \<le> c \<and> c \<le> m"
proof (cases "is_all chs")
  case True
  with assms show ?thesis by (auto simp: normalize_channels_def)
next
  case False
  with assms obtain items ints where
    "cl = sort (remdups ints)" "filter (\<lambda>c. \<not> (0 \<le> c \<and> c \<le> m)) cl = []"
    by (auto simp: normalize_channels_def Let_def split: option.splits list.splits)
  then show ?thesis by (auto simp: filter_empty_conv)
qed

lemma those_map_Some: "those (map Some xs) = Some xs"
  by (induction xs) simp_all

lemma normalize_channels_as_spec:
  assumes "\<forall>c\<in>set cl. 0 \<le> c \<and> c \<le> m"
  shows "normalize_channels (as_spec cl) m = Inr (sort (remdups cl))"
proof -
  have "filter (\<lambda>c. \<not> (0 \<le> c \<and> c \<le> m)) (sort (remdups cl)) = []"
    using assms by (auto simp: filter_empty_conv)
  then show ?thesis
    by (simp add: normalize_channels_def as_spec_def is_all_def items_of_def those_map_Some Let_def)
qed

lemma mask_loop_ok: "\<forall>c\<in>set cl. 0 \<le> c \<Longrightarrow> \<exists>m'. mask_loop m cl = Inr m'"
  by (induction cl arbitrary: m) auto

lemma mask_from_channels_ok: "\<forall>c\<in>set cl. 0 \<le> c \<Longrightarrow> \<exists>m'. mask_from_channels cl = Inr m'"
  by (simp add: mask_from_channels_def mask_loop_ok)

subsection \<open>Frames that cannot fail\<close>

lemma fmt_cmd_ok:
  assumes "length C = 1" "0 \<le> HH" "HH \<le> 0xFF" "0 \<le> E" "E \<le> 0xF" "0 \<le> DDDD" "DDDD \<le> 0xFFFF"
  shows "fmt_cmd C HH E DDDD = Inr (''*'' @ C @ fmt_X 2 HH @ fmt_X 0 E @ fmt_X 4 DDDD @ ''#'')"
proof -
  have "length (fmt_X 2 HH) = 2" using assms by (intro fmt_X_length) auto
  moreover have "length (fmt_X 0 E) = 1" using assms by (intro fmt_X_0_length) auto
  moreover have "length (fmt_X 4 DDDD) = 4" using assms by (intro fmt_X_length) auto
  ultimately show ?thesis using assms(1) by (simp add: fmt_cmd_def)
qed

lemma and_FF_range: "0 \<le> (x :: int) AND 0xFF" "(x :: int) AND 0xFF \<le> 0xFF"
  by (simp_all add: AND_upper2)

lemma and_FFFF_range: "0 \<le> (x :: int) AND 0xFFFF" "(x :: int) AND 0xFFFF \<le> 0xFFFF"
  by (simp_all add: AND_upper2)

subsection \<open>The duty code\<close>

lemma py_int_nonneg: "0 \<le> x \<Longrightarrow> py_int x = \<lfloor>x\<rfloor>"
  by (simp add: py_int_def)

lemma ticks_bounds:
  assumes "0 < duty" "duty < 1"
  shows "0 \<le> py_int (duty * 1024)" "py_int (duty * 1024) \<le> 1023"
proof -
  from assms have nn: "0 \<le> duty * 1024" by simp
  then show "0 \<le> py_int (duty * 1024)" by (simp add: py_int_nonneg)
  from assms have "duty * 1024 < 1024" by simp
  then have "\<lfloor>duty * 1024\<rfloor> < 1024" by (simp add: floor_less_iff)
  with nn show "py_int (duty * 1024) \<le> 1023" by (simp add: py_int_nonneg)
qed

lemma snap_ticks:
  assumes "\<bar>duty - 1 / 2\<bar> < 1 / 1024"
  shows "511 \<le> py_int (duty * 1024)" "py_int (duty * 1024) \<le> 512"
proof -
  from assms have lo: "511 < duty * 1024" and hi: "duty * 1024 < 513" by linarith+
  from lo have nn: "0 \<le> duty * 1024" by simp
  from lo have "511 \<le> \<lfloor>duty * 1024\<rfloor>" by (simp add: le_floor_iff)
  with nn show "511 \<le> py_int (duty * 1024)" by (simp add: py_int_nonneg)
  from hi have "\<lfloor>duty * 1024\<rfloor> < 513" by (simp add: floor_less_iff)
  with nn show "py_int (duty * 1024) \<le> 512" by (simp add: py_int_nonneg)
qed

lemma pwm_duty_code_inner:
  assumes "0 < duty" "duty < 1"
  shows "pwm_duty_code duty =
           (if \<bar>duty - 1 / 2\<bar> < 1 / 1024 then 0x01FF
            else max 1 (min 1022 \<lfloor>duty * 1024\<rfloor>))"
proof -
  define t where "t = py_int (duty * 1024)"
  from assms have fl: "\<lfloor>duty * 1024\<rfloor> = t" by (simp add: py_int_nonneg t_def)
  from ticks_bounds [OF assms] have b: "0 \<le> t" "t \<le> 1023" by (simp_all add: t_def)
  from assms have code: "pwm_duty_code duty =
      (if t \<le> 0 then 0x0001 else if t \<ge> 1023 then 0x03FE
       else if \<bar>duty - 1 / 2\<bar> < 1 / 1024 then 0x01FF else t)"
    by (simp add: pwm_duty_code_def Let_def t_def)
  have "pwm_duty_code duty =
           (if \<bar>duty - 1 / 2\<bar> < 1 / 1024 then 0x01FF else max 1 (min 1022 t))"
  proof (cases "\<bar>duty - 1 / 2\<bar> < 1 / 1024")
    case True
    from snap_ticks [OF True] have "511 \<le> t" "t \<le> 512" by (simp_all add: t_def)
    with True code show ?thesis by simp
  next
    case False
    with b code show ?thesis by (simp add: max_def min_def)
  qed
  then show ?thesis by (simp only: fl)
qed



lemma pwm_duty_code_values:
  "pwm_duty_code 0 = 0x0000" "pwm_duty_code 1 = 0x03FF" "pwm_duty_code (1 / 2) = 0x01FF"
  "pwm_duty_code (1 / 2 + 1 / 2048) = 0x01FF" "pwm_duty_code (1 / 2 - 1 / 2048) = 0x01FF"
  "pwm_duty_code (513 / 1024) = 513"
  by (simp_all add: pwm_duty_code_def py_int_def Let_def)


lemma pwm_duty_code_range:
  assumes "0 \<le> duty" "duty \<le> 1"
  shows "0x0000 \<le> pwm_duty_code duty \<and> pwm_duty_code duty \<le> 0x03FF
         \<and> (0 < duty \<and> duty < 1 \<longrightarrow> 0x0001 \<le> pwm_duty_code duty \<and> pwm_duty_code duty \<le> 0x03FE)"
proof (cases "duty = 0 \<or> duty = 1")
  case True
  then show ?thesis by (auto simp: pwm_duty_code_def)
next
  case False
  with assms have d: "0 < duty" "duty < 1" by auto
  from pwm_duty_code_inner [OF d] d show ?thesis
    by (auto simp: max_def min_def)
qed

subsection \<open>Calls that cannot raise, calls that raise before they send\<close>

lemma untouched_ok: "\<not> isl (fst r) \<Longrightarrow> untouched r h"
  by (cases "fst r") (simp_all add: untouched_def)

lemma untouched_if:
  "(c \<Longrightarrow> untouched (f h) h) \<Longrightarrow> (\<not> c \<Longrightarrow> untouched (g h) h) \<Longrightarrow>
   untouched ((if c then f else g) h) h"
  by simp

lemma untouched_bindM_liftM:
  "(\<And>x. r = Inr x \<Longrightarrow> untouched (f x h) h) \<Longrightarrow> untouched (bindM (liftM r) f h) h"
  by (cases r) (simp_all add: bindM_liftM_Inl bindM_liftM_Inr untouched_def)

lemma ok_send_frame: "\<not> isl frame \<Longrightarrow> \<not> isl (fst (send_frame frame h))"
  by (cases frame) (simp_all add: send_frame_Inr)

lemma ok_bindM:
  "\<not> isl (fst (m h)) \<Longrightarrow> (\<And>x h'. m h = (Inr x, h') \<Longrightarrow> \<not> isl (fst (f x h'))) \<Longrightarrow>
   \<not> isl (fst (bindM m f h))"
  by (cases "m h"; cases "fst (m h)") (auto simp: bindM_def)

lemma ok_bindM_liftM:
  "r = Inr x \<Longrightarrow> \<not> isl (fst (f x h)) \<Longrightarrow> \<not> isl (fst (bindM (liftM r) f h))"
  by (simp add: bindM_liftM_Inr)

lemma ok_for_each:
  assumes "\<forall>c\<in>set cs. \<not> isl (f c)"
  shows "\<not> isl (fst (for_each (\<lambda>c. send_frame (f c)) cs acc h))"
proof -
  from assms have "\<forall>c\<in>set cs. \<exists>s. f c = Inr s"
    by (metis isl_def sum.exhaust_sel sum.collapse(2))
  from for_each_ok [OF this, of acc h] show ?thesis by auto
qed

lemma ok_fmt_cmd:
  "length C = 1 \<Longrightarrow> 0 \<le> HH \<Longrightarrow> HH \<le> 0xFF \<Longrightarrow> 0 \<le> E \<Longrightarrow> E \<le> 0xF \<Longrightarrow> 0 \<le> DDDD \<Longrightarrow>
   DDDD \<le> 0xFFFF \<Longrightarrow> \<not> isl (fmt_cmd C HH E DDDD)"
  by (simp add: fmt_cmd_ok)

lemma ok_fmt_cmd_masks:
  "length C = 1 \<Longrightarrow> 0 \<le> E \<Longrightarrow> E \<le> 0xF \<Longrightarrow> \<not> isl (fmt_cmd C (a AND 0xFF) E (b AND 0xFFFF))"
  by (rule ok_fmt_cmd) (simp_all add: AND_upper2)

subsection \<open>Single-frame commands\<close>

lemma untouched_cmd_set_chunk_size: "untouched (cmd_set_chunk_size h ch n) h"
  by (simp add: cmd_set_chunk_size_def untouched_raiseM untouched_send_frame)

lemma untouched_cmd_start_accumulation: "untouched (cmd_start_accumulation h) h"
  by (simp add: cmd_start_accumulation_def untouched_send_frame)

lemma untouched_cmd_set_chunk_num: "untouched (cmd_set_chunk_num h ch n) h"
  by (simp add: cmd_set_chunk_num_def untouched_raiseM untouched_send_frame Let_def)

lemma untouched_cmd_stop_accumulation: "untouched (cmd_stop_accumulation h) h"
  by (simp add: cmd_stop_accumulation_def untouched_send_frame)

lemma untouched_cmd_set_ldac: "untouched (cmd_set_ldac h level) h"
  by (simp add: cmd_set_ldac_def untouched_raiseM untouched_send_frame)

lemma untouched_cmd_set_ldac_mask: "untouched (cmd_set_ldac_mask h m) h"
  by (simp add: cmd_set_ldac_mask_def untouched_raiseM untouched_send_frame Let_def)

lemma untouched_cmd_dac_set_data: "untouched (cmd_dac_set_data h ch v) h"
  by (simp add: cmd_dac_set_data_def untouched_raiseM untouched_send_frame)

lemma untouched_cmd_dac_immediate_out: "untouched (cmd_dac_immediate_out h ch v) h"
  by (simp add: cmd_dac_immediate_out_def untouched_raiseM untouched_send_frame)

lemma untouched_cmd_set_opamp_gain: "untouched (cmd_set_opamp_gain h ch g) h"
  by (simp add: cmd_set_opamp_gain_def untouched_raiseM untouched_send_frame)

lemma untouched_cmd_gpio_write: "untouched (cmd_gpio_write h v) h"
  by (simp add: cmd_gpio_write_def untouched_raiseM untouched_send_frame)

lemma untouched_cmd_reset: "untouched (cmd_reset h mode) h"
  by (simp add: cmd_reset_def untouched_raiseM untouched_send_frame Let_def)

lemma untouched_cmd_gpio_write_mask: "untouched (cmd_gpio_write_mask h chs) h"
  unfolding cmd_gpio_write_mask_def
  by (intro untouched_bindM_liftM untouched_cmd_gpio_write)

lemma untouched_cmd_set_gpio_dir: "untouched (cmd_set_gpio_dir h a i) h"
  unfolding cmd_set_gpio_dir_def Let_def
  by (intro untouched_bindM_liftM untouched_send_frame)

text \<open>Commands that write and then read without \<^verbatim>\<open>_send_and_read_one_line\<close>.\<close>

lemmas io_defs = bindM_def liftM_def raiseM_def returnM_def write_ascii_def readline_def

lemma untouched_cmd_adc_single_sample: "untouched (cmd_adc_single_sample h ch) h"
  by (cases "fmt_cmd ''4'' ch 0x0 0x0000"; cases "rx h")
     (simp_all add: cmd_adc_single_sample_def io_defs untouched_def)

lemma untouched_cmd_adc_chunk_request: "untouched (cmd_adc_chunk_request h ch n) h"
  by (cases "fmt_cmd ''4'' ch 0x1 n")
     (simp_all add: cmd_adc_chunk_request_def io_defs untouched_def)

lemma untouched_cmd_gpio_read: "untouched (cmd_gpio_read h) h"
  by (cases "fmt_cmd ''D'' 0x00 0x0 0x0000"; cases "rx h")
     (simp_all add: cmd_gpio_read_def io_defs untouched_def)

lemma untouched_cmd_encoder_status_read: "untouched (cmd_encoder_status_read h ch) h"
  by (cases "fmt_cmd ''D'' ch 0x1 0x0000"; cases "rx h")
     (simp_all add: cmd_encoder_status_read_def io_defs untouched_def Let_def)

subsection \<open>Commands that send one frame per channel\<close>

lemma hh_from_single_ch_range: "0 \<le> hh_from_single_ch c" "hh_from_single_ch c \<le> 0xFF"
  by (simp_all add: hh_from_single_ch_def AND_upper2)

lemma untouched_liftM_for_each:
  assumes "\<And>cs. r = Inr cs \<Longrightarrow> (\<forall>c\<in>set cs. \<exists>s. f c = Inr s) \<or> (\<forall>c\<in>set cs. \<exists>e. f c = Inl e)"
  shows "untouched (bindM (liftM r) (\<lambda>cs. for_each (\<lambda>c. send_frame (f c)) cs []) h) h"
  by (rule untouched_bindM_liftM) (rule untouched_for_each, rule assms)

lemma fmt_cmd_Inr_ex:
  "length C = 1 \<Longrightarrow> 0 \<le> HH \<Longrightarrow> HH \<le> 0xFF \<Longrightarrow> 0 \<le> E \<Longrightarrow> E \<le> 0xF \<Longrightarrow> 0 \<le> DDDD \<Longrightarrow>
   DDDD \<le> 0xFFFF \<Longrightarrow> \<exists>s. fmt_cmd C HH E DDDD = Inr s"
  by (simp add: fmt_cmd_ok)

lemma untouched_cmd_encoder_preset_hi: "untouched (cmd_encoder_preset_hi h ch v) h"
proof (cases "0x0000 \<le> v \<and> v \<le> 0xFFFF")
  case False
  then show ?thesis by (simp add: cmd_encoder_preset_hi_def untouched_raiseM)
next
  case True
  then have "\<exists>s. fmt_cmd ''A'' (hh_from_single_ch c) 0x2 v = Inr s" for c
    by (intro fmt_cmd_Inr_ex) (simp_all add: hh_from_single_ch_range)
  with True show ?thesis
    by (simp add: cmd_encoder_preset_hi_def untouched_liftM_for_each)
qed

lemma untouched_cmd_encoder_preset_lo: "untouched (cmd_encoder_preset_lo h ch v) h"
proof (cases "0x0000 \<le> v \<and> v \<le> 0xFFFF")
  case False
  then show ?thesis by (simp add: cmd_encoder_preset_lo_def untouched_raiseM)
next
  case True
  then have "\<exists>s. fmt_cmd ''A'' (hh_from_single_ch c) 0x3 v = Inr s" for c
    by (intro fmt_cmd_Inr_ex) (simp_all add: hh_from_single_ch_range)
  with True show ?thesis
    by (simp add: cmd_encoder_preset_lo_def untouched_liftM_for_each)
qed

lemma encoder_ctrl_data_range:
  "0 \<le> encoder_ctrl_data d r l" "encoder_ctrl_data d r l \<le> 7"
  by (simp_all add: encoder_ctrl_data_def Let_def)

lemma untouched_cmd_encoder_ctrl: "untouched (cmd_encoder_ctrl h chs d r l) h"
proof (cases "r \<and> l")
  case True
  then show ?thesis by (simp add: cmd_encoder_ctrl_def untouched_raiseM)
next
  case False
  have "encoder_ctrl_data d r l \<le> 0xFFFF"
    using encoder_ctrl_data_range(2) [of d r l] by simp
  then have "\<exists>s. fmt_cmd ''A'' (hh_from_single_ch c) 0x4 (encoder_ctrl_data d r l) = Inr s" for c
    by (intro fmt_cmd_Inr_ex) (simp_all add: hh_from_single_ch_range encoder_ctrl_data_range)
  with False show ?thesis
    by (simp add: cmd_encoder_ctrl_def untouched_liftM_for_each untouched_raiseM)
qed

lemma untouched_cmd_pwm_set_data_raw: "untouched (cmd_pwm_set_data_raw h chs dddd) h"
proof (cases "0x0000 \<le> dddd \<and> dddd \<le> 0x03FF")
  case False
  then show ?thesis by (simp add: cmd_pwm_set_data_raw_def untouched_raiseM)
next
  case True
  have "\<exists>s. fmt_cmd ''C'' c 0x0 dddd = Inr s"
    if "normalize_channels chs 7 = Inr cs" "c \<in> set cs" for c cs
    using normalize_channels_range [OF that(1)] that(2) True
    by (intro fmt_cmd_Inr_ex) auto
  with True show ?thesis
    by (simp add: cmd_pwm_set_data_raw_def untouched_liftM_for_each)
qed

lemma untouched_cmd_pwm_set_duty: "untouched (cmd_pwm_set_duty h chs duty) h"
  by (simp add: cmd_pwm_set_duty_def untouched_raiseM untouched_cmd_pwm_set_data_raw)

text \<open>
  \<^verbatim>\<open>cmd_pwm_set_frequency\<close> decides the band inside the loop, but the decision does not
  depend on the channel: either every frame is built or the first one already fails.
\<close>

lemma pwm_frequency_frame_cases:
  assumes "0 \<le> freq_hz" "normalize_channels chs 7 = Inr cs"
  shows "(\<forall>c\<in>set cs. \<exists>s. pwm_frequency_frame freq_hz c = Inr s)
         \<or> (\<forall>c\<in>set cs. \<exists>e. pwm_frequency_frame freq_hz c = Inl e)"
proof (cases "freq_hz \<le> 4095 \<or> (freq_hz mod 1000 = 0 \<and> freq_hz div 1000 \<le> 97)")
  case False
  with assms(1) have "\<forall>c\<in>set cs. \<exists>e. pwm_frequency_frame freq_hz c = Inl e"
    by (auto simp: pwm_frequency_frame_def)
  then show ?thesis ..
next
  case True
  have "\<exists>s. pwm_frequency_frame freq_hz c = Inr s" if "c \<in> set cs" for c
  proof -
    from normalize_channels_range [OF assms(2)] that have c: "0 \<le> c" "c \<le> 0xFF" by auto
    show ?thesis
    proof (cases "freq_hz \<le> 4095")
      case True
      with assms(1) c show ?thesis
        by (simp add: pwm_frequency_frame_def fmt_cmd_Inr_ex)
    next
      case False
      with True assms(1) have "0 \<le> freq_hz div 1000" "freq_hz div 1000 \<le> 97" "freq_hz mod 1000 = 0"
        by auto
      with False assms(1) c show ?thesis
        by (simp add: pwm_frequency_frame_def fmt_cmd_Inr_ex)
    qed
  qed
  then show ?thesis by blast
qed

lemma untouched_cmd_pwm_set_frequency: "untouched (cmd_pwm_set_frequency h chs freq_hz) h"
proof (cases "freq_hz < 0")
  case True
  then show ?thesis by (simp add: cmd_pwm_set_frequency_def untouched_raiseM)
next
  case False
  then have "0 \<le> freq_hz" by simp
  from pwm_frequency_frame_cases [OF this] False show ?thesis
    by (simp add: cmd_pwm_set_frequency_def untouched_liftM_for_each)
qed

subsection \<open>Composite commands\<close>

lemma untouched_bindM:
  assumes "untouched (m h) h" "\<And>x h'. m h = (Inr x, h') \<Longrightarrow> \<not> isl (fst (f x h'))"
  shows "untouched (bindM m f h) h"
proof (cases "m h")
  case (Pair r h')
  show ?thesis
  proof (cases r)
    case (Inl e)
    with Pair assms(1) show ?thesis by (simp add: bindM_def untouched_def)
  next
    case (Inr x)
    with Pair assms(2) [of x h'] have "\<not> isl (fst (bindM m f h))" by (simp add: bindM_def)
    then show ?thesis by (rule untouched_ok)
  qed
qed

lemma ok_cmd_set_gpio_dir:
  assumes a: "\<forall>c\<in>set a. 0 \<le> c \<and> c \<le> 7" and i: "\<forall>c\<in>set i. 0 \<le> c \<and> c \<le> 7"
  shows "\<not> isl (fst (cmd_set_gpio_dir h (as_spec a) (as_spec i)))"
proof -
  from a have "\<forall>c\<in>set (sort (remdups a)). 0 \<le> c" by simp
  then obtain ma where ma: "mask_from_channels (sort (remdups a)) = Inr ma"
    using mask_from_channels_ok by blast
  from i have "\<forall>c\<in>set (sort (remdups i)). 0 \<le> c" by simp
  then obtain mi where mi: "mask_from_channels (sort (remdups i)) = Inr mi"
    using mask_from_channels_ok by blast
  show ?thesis
    by (simp add: cmd_set_gpio_dir_def normalize_channels_as_spec [OF a]
        normalize_channels_as_spec [OF i] ma mi bindM_liftM_Inr Let_def ok_send_frame
        ok_fmt_cmd_masks)
qed

lemma untouched_cmd_set_gpio_pwm_mode: "untouched (cmd_set_gpio_pwm_mode h a p) h"
  unfolding cmd_set_gpio_pwm_mode_def
proof (intro untouched_bindM_liftM)
  fix act pwm
  assume act: "normalize_channels a 7 = Inr act"
  from normalize_channels_range [OF act] have r: "\<forall>c\<in>set act. 0 \<le> c \<and> c \<le> 7" .
  then obtain ma where ma: "mask_from_channels act = Inr ma"
    using mask_from_channels_ok [of act] by auto
  from r have "\<forall>c\<in>set (filter (\<lambda>c. c \<in> set act) pwm). 0 \<le> c" by simp
  then obtain mp where mp: "mask_from_channels (filter (\<lambda>c. c \<in> set act) pwm) = Inr mp"
    using mask_from_channels_ok by blast
  have "\<not> isl (fst (bindM (\<lambda>h. cmd_set_gpio_dir h (as_spec act) (as_spec []))
           (\<lambda>_. bindM (liftM (mask_from_channels act)) (\<lambda>ma.
                 bindM (liftM (mask_from_channels (filter (\<lambda>c. c \<in> set act) pwm))) (\<lambda>mp.
                   (let hh = ma AND 0xFF; dd = mp AND 0xFFFF
                    in send_frame (fmt_cmd ''A'' hh 0x0 dd))))) h))"
    by (rule ok_bindM)
       (simp_all add: ok_cmd_set_gpio_dir r ma mp bindM_liftM_Inr Let_def ok_send_frame
          ok_fmt_cmd_masks)
  then show "untouched (bindM (\<lambda>h. cmd_set_gpio_dir h (as_spec act) (as_spec []))
           (\<lambda>_. bindM (liftM (mask_from_channels act)) (\<lambda>ma.
                 bindM (liftM (mask_from_channels (filter (\<lambda>c. c \<in> set act) pwm))) (\<lambda>mp.
                   (let hh = ma AND 0xFF; dd = mp AND 0xFFFF
                    in send_frame (fmt_cmd ''A'' hh 0x0 dd))))) h) h"
    by (rule untouched_ok)
qed

lemma untouched_cmd_set_encoder_mode: "untouched (cmd_set_encoder_mode h channels) h"
  unfolding cmd_set_encoder_mode_def
proof (intro untouched_bindM_liftM)
  fix chs m
  assume chs: "normalize_channels channels 3 = Inr chs"
  from normalize_channels_range [OF chs] have r: "\<forall>c\<in>set chs. 0 \<le> c \<and> c \<le> 7" by auto
  have "\<not> isl (fst ((let hh = m AND 0xFF
         in bindM (\<lambda>h. cmd_set_gpio_dir h (as_spec chs) (as_spec chs)) (\<lambda>_.
            bindM (send_frame (fmt_cmd ''A'' hh 0x0 0x0000)) (\<lambda>_.
            send_frame (fmt_cmd ''A'' hh 0x1 0x0000)))) h))"
    unfolding Let_def
    by (intro ok_bindM ok_cmd_set_gpio_dir r ok_send_frame ok_fmt_cmd)
       (simp_all add: AND_upper2)
  then show "untouched ((let hh = m AND 0xFF
         in bindM (\<lambda>h. cmd_set_gpio_dir h (as_spec chs) (as_spec chs)) (\<lambda>_.
            bindM (send_frame (fmt_cmd ''A'' hh 0x0 0x0000)) (\<lambda>_.
            send_frame (fmt_cmd ''A'' hh 0x1 0x0000)))) h) h"
    by (rule untouched_ok)
qed

lemma cmd_encoder_preset_hi_Inr:
  assumes "cmd_encoder_preset_hi h ch v = (Inr x, h')"
  shows "\<exists>chs. norm_enc_ch ch = Inr chs"
proof (cases "norm_enc_ch ch")
  case (Inl e)
  with assms show ?thesis
    by (simp add: cmd_encoder_preset_hi_def bindM_liftM_Inl raiseM_def split: if_splits)
next
  case (Inr chs)
  then show ?thesis by simp
qed

lemma ok_cmd_encoder_preset_lo:
  assumes "0x0000 \<le> v \<and> v \<le> 0xFFFF" "norm_enc_ch ch = Inr chs"
  shows "\<not> isl (fst (cmd_encoder_preset_lo h ch v))"
proof -
  have "\<not> isl (fmt_cmd ''A'' (hh_from_single_ch c) 0x3 v)" for c
    using assms(1) by (intro ok_fmt_cmd) (simp_all add: hh_from_single_ch_range)
  with assms show ?thesis
    by (simp add: cmd_encoder_preset_lo_def bindM_liftM_Inr ok_for_each)
qed

lemma untouched_cmd_encoder_preset_32: "untouched (cmd_encoder_preset_32 h ch v) h"
proof (cases "0x00000000 \<le> v \<and> v \<le> 0xFFFFFFFF")
  case False
  then show ?thesis by (simp add: cmd_encoder_preset_32_def untouched_raiseM)
next
  case True
  have "untouched (bindM (\<lambda>h. cmd_encoder_preset_hi h ch (drop_bit 16 v AND 0xFFFF)) (\<lambda>cmds_hi.
               bindM (\<lambda>h. cmd_encoder_preset_lo h ch (v AND 0xFFFF)) (\<lambda>cmds_lo.
               returnM (cmds_hi @ cmds_lo))) h) h"
  proof (rule untouched_bindM)
    show "untouched (cmd_encoder_preset_hi h ch (drop_bit 16 v AND 0xFFFF)) h"
      by (rule untouched_cmd_encoder_preset_hi)
  next
    fix x h'
    assume "cmd_encoder_preset_hi h ch (drop_bit 16 v AND 0xFFFF) = (Inr x, h')"
    then obtain chs where "norm_enc_ch ch = Inr chs"
      using cmd_encoder_preset_hi_Inr by blast
    then have "\<not> isl (fst (cmd_encoder_preset_lo h' ch (v AND 0xFFFF)))"
      by (intro ok_cmd_encoder_preset_lo [where chs = chs]) (simp_all add: AND_upper2)
    then show "\<not> isl (fst (bindM (\<lambda>h. cmd_encoder_preset_lo h ch (v AND 0xFFFF))
                 (\<lambda>cmds_lo. returnM (x @ cmds_lo)) h'))"
      by (rule ok_bindM) (simp add: returnM_def)
  qed
  with True show ?thesis by (simp add: cmd_encoder_preset_32_def Let_def)
qed

subsection \<open>No partial transmission\<close>

lemma raised_untouched: "untouched r h \<Longrightarrow> fst (raised r) = Some e \<Longrightarrow> snd (raised r) = h"
  by (cases r; cases "fst r") (auto simp: raised_def untouched_def)

lemmas untouched_cmds =
  untouched_cmd_set_chunk_size untouched_cmd_start_accumulation untouched_cmd_set_chunk_num
  untouched_cmd_stop_accumulation untouched_cmd_adc_single_sample
  untouched_cmd_adc_chunk_request untouched_cmd_set_ldac untouched_cmd_set_ldac_mask
  untouched_cmd_dac_set_data untouched_cmd_dac_immediate_out untouched_cmd_set_opamp_gain
  untouched_cmd_set_gpio_dir untouched_cmd_set_gpio_pwm_mode untouched_cmd_set_encoder_mode
  untouched_cmd_encoder_preset_hi untouched_cmd_encoder_preset_lo
  untouched_cmd_encoder_preset_32 untouched_cmd_encoder_ctrl untouched_cmd_pwm_set_frequency
  untouched_cmd_pwm_set_data_raw untouched_cmd_pwm_set_duty untouched_cmd_gpio_read
  untouched_cmd_encoder_status_read untouched_cmd_gpio_write untouched_cmd_gpio_write_mask
  untouched_cmd_reset

lemmas wrapper_defs =
  cmd_encoder_dir_invert_def cmd_encoder_count_reset_def cmd_encoder_load_preset_def
  cmd_reset_all_def cmd_reset_adc_tx_def

text \<open>
  Raising comes before sending. Whatever the operation of the catalogue and whatever its
  arguments, if the call raises an exception (a validation error or any other), the
  handle is as it was before the call: no byte was written and nothing was read. This
  covers the operations that send one frame per channel and the composite ones. It says
  nothing on which arguments make a call raise.
\<close>

theorem no_partial_transmission:
  assumes "fst (outcome h c) = Some e"
  shows "snd (outcome h c) = h"
  using assms
  by (cases c) (auto simp: wrapper_defs intro!: raised_untouched [where e = e] untouched_cmds)

lemma sort_remdups_1_3: "sort (remdups [1, 3 :: int]) = [1, 3]"
  by simp

theorem no_partial_transmission_witness:
  "fst (outcome \<lparr>tx = [], rx = [''*OK#'']\<rparr> (Pwm_set_frequency (Ch_iter [Some 1, Some 3]) 4096))
     = Some (ValueError Freq_not_encodable)
   \<and> snd (outcome \<lparr>tx = [], rx = [''*OK#'']\<rparr> (Pwm_set_frequency (Ch_iter [Some 1, Some 3]) 4096))
     = \<lparr>tx = [], rx = [''*OK#'']\<rparr>"
proof -
  have n: "normalize_channels (Ch_iter [Some 1, Some 3]) 7 = Inr [1, 3]"
    by (simp add: normalize_channels_def is_all_def items_of_def)
  have f: "pwm_frequency_frame 4096 1 = Inl (ValueError Freq_not_encodable)"
    by (simp add: pwm_frequency_frame_def)
  have "fst (outcome \<lparr>tx = [], rx = [''*OK#'']\<rparr> (Pwm_set_frequency (Ch_iter [Some 1, Some 3]) 4096))
     = Some (ValueError Freq_not_encodable)"
    by (simp add: cmd_pwm_set_frequency_def n bindM_liftM_Inr f send_frame_Inl raised_def)
  with no_partial_transmission [OF this] show ?thesis by simp
qed

subsection \<open>What a loop sends\<close>

lemma for_each_frames:
  assumes "\<forall>c\<in>set cs. f c = Inr (g c) \<and> filter (\<lambda>x. \<not> digit7 x) (g c) = g c"
  shows "for_each (\<lambda>c. send_frame (f c)) cs acc h =
           (Inr (acc @ map g cs), h\<lparr>tx := tx h @ map g cs, rx := drop (length cs) (rx h)\<rparr>)"
  using assms
proof (induction cs arbitrary: acc h)
  case Nil
  then show ?case by simp
next
  case (Cons c cs)
  then show ?case by (simp add: send_frame_Inr drop_Suc)
qed

lemma channel_0_7_cases:
  "0 \<le> c \<Longrightarrow> c \<le> 7 \<Longrightarrow> c = 0 \<or> c = 1 \<or> c = 2 \<or> c = 3 \<or> c = 4 \<or> c = 5 \<or> c = 6 \<or> c = (7::int)"
  by arith

lemma channel_0_3_cases:
  "0 \<le> c \<Longrightarrow> c \<le> 3 \<Longrightarrow> c = 0 \<or> c = 1 \<or> c = 2 \<or> c = (3::int)"
  by arith

text \<open>The sub field of a single channel 0..7 is \<open>0\<close> followed by the channel digit.\<close>

lemma fmt_B_frame:
  assumes "0 \<le> c" "c \<le> 7"
  shows "fmt_cmd ''B'' c 0x0 0x0000 = Inr (''*B0'' @ [hexdigit (nat c)] @ ''00000#'')"
    and "fmt_cmd ''B'' c 0x0 0x0FFF = Inr (''*B0'' @ [hexdigit (nat c)] @ ''00FFF#'')"
    and "fmt_cmd ''B'' c 0x0 0x8005 = Inr (''*B0'' @ [hexdigit (nat c)] @ ''08005#'')"
  using channel_0_7_cases [OF assms]
  by (auto simp: fmt_eval)

lemma ascii_hexdigit: "0 \<le> c \<Longrightarrow> c \<le> 7 \<Longrightarrow> \<not> digit7 (hexdigit (nat c))"
  using channel_0_7_cases [of c] by (auto simp: hexdigit_def)

text \<open>The result of a call that sent the frames \<open>fs\<close> and read one line after each.\<close>

lemma pwm_set_frequency_selected:
  assumes n: "normalize_channels channels 7 = Inr cl"
  shows "cmd_pwm_set_frequency h channels 0 =
           (Inr (map (\<lambda>c. ''*B0'' @ [hexdigit (nat c)] @ ''00000#'') cl),
            h\<lparr>tx := tx h @ map (\<lambda>c. ''*B0'' @ [hexdigit (nat c)] @ ''00000#'') cl,
              rx := drop (length cl) (rx h)\<rparr>)"
    and "cmd_pwm_set_frequency h channels 4095 =
           (Inr (map (\<lambda>c. ''*B0'' @ [hexdigit (nat c)] @ ''00FFF#'') cl),
            h\<lparr>tx := tx h @ map (\<lambda>c. ''*B0'' @ [hexdigit (nat c)] @ ''00FFF#'') cl,
              rx := drop (length cl) (rx h)\<rparr>)"
    and "cmd_pwm_set_frequency h channels 5000 =
           (Inr (map (\<lambda>c. ''*B0'' @ [hexdigit (nat c)] @ ''08005#'') cl),
            h\<lparr>tx := tx h @ map (\<lambda>c. ''*B0'' @ [hexdigit (nat c)] @ ''08005#'') cl,
              rx := drop (length cl) (rx h)\<rparr>)"
    and "cl \<noteq> [] \<Longrightarrow> cmd_pwm_set_frequency h channels 4096 = (Inl (ValueError Freq_not_encodable), h)"
    and "cl \<noteq> [] \<Longrightarrow> cmd_pwm_set_frequency h channels 97500 = (Inl (ValueError Freq_not_encodable), h)"
    and "cl = [] \<Longrightarrow> cmd_pwm_set_frequency h channels 4096 = (Inr [], h)"
    and "cl = [] \<Longrightarrow> cmd_pwm_set_frequency h channels 97500 = (Inr [], h)"
proof -
  note r = normalize_channels_range [OF n]
  have f0: "pwm_frequency_frame 0 c = fmt_cmd ''B'' c 0x0 0x0000"
   and f1: "pwm_frequency_frame 4095 c = fmt_cmd ''B'' c 0x0 0x0FFF"
   and f2: "pwm_frequency_frame 5000 c = fmt_cmd ''B'' c 0x0 0x8005"
   and f3: "pwm_frequency_frame 4096 c = Inl (ValueError Freq_not_encodable)"
   and f4: "pwm_frequency_frame 97500 c = Inl (ValueError Freq_not_encodable)" for c
    by (simp_all add: pwm_frequency_frame_def)
  show "cmd_pwm_set_frequency h channels 0 =
           (Inr (map (\<lambda>c. ''*B0'' @ [hexdigit (nat c)] @ ''00000#'') cl),
            h\<lparr>tx := tx h @ map (\<lambda>c. ''*B0'' @ [hexdigit (nat c)] @ ''00000#'') cl,
              rx := drop (length cl) (rx h)\<rparr>)"
    using r
    by (simp add: cmd_pwm_set_frequency_def n bindM_liftM_Inr f0)
       (subst for_each_frames [where g = "\<lambda>c. ''*B0'' @ [hexdigit (nat c)] @ ''00000#''"];
        simp add: fmt_B_frame ascii_hexdigit)
  show "cmd_pwm_set_frequency h channels 4095 =
           (Inr (map (\<lambda>c. ''*B0'' @ [hexdigit (nat c)] @ ''00FFF#'') cl),
            h\<lparr>tx := tx h @ map (\<lambda>c. ''*B0'' @ [hexdigit (nat c)] @ ''00FFF#'') cl,
              rx := drop (length cl) (rx h)\<rparr>)"
    using r
    by (simp add: cmd_pwm_set_frequency_def n bindM_liftM_Inr f1)
       (subst for_each_frames [where g = "\<lambda>c. ''*B0'' @ [hexdigit (nat c)] @ ''00FFF#''"];
        simp add: fmt_B_frame ascii_hexdigit)
  show "cmd_pwm_set_frequency h channels 5000 =
           (Inr (map (\<lambda>c. ''*B0'' @ [hexdigit (nat c)] @ ''08005#'') cl),
            h\<lparr>tx := tx h @ map (\<lambda>c. ''*B0'' @ [hexdigit (nat c)] @ ''08005#'') cl,
              rx := drop (length cl) (rx h)\<rparr>)"
    using r
    by (simp add: cmd_pwm_set_frequency_def n bindM_liftM_Inr f2)
       (subst for_each_frames [where g = "\<lambda>c. ''*B0'' @ [hexdigit (nat c)] @ ''08005#''"];
        simp add: fmt_B_frame ascii_hexdigit)
  show "cl \<noteq> [] \<Longrightarrow> cmd_pwm_set_frequency h channels 4096 = (Inl (ValueError Freq_not_encodable), h)"
    by (cases cl) (simp_all add: cmd_pwm_set_frequency_def n bindM_liftM_Inr f3 send_frame_Inl)
  show "cl \<noteq> [] \<Longrightarrow> cmd_pwm_set_frequency h channels 97500 = (Inl (ValueError Freq_not_encodable), h)"
    by (cases cl) (simp_all add: cmd_pwm_set_frequency_def n bindM_liftM_Inr f4 send_frame_Inl)
  show "cl = [] \<Longrightarrow> cmd_pwm_set_frequency h channels 4096 = (Inr [], h)"
    by (simp add: cmd_pwm_set_frequency_def n bindM_liftM_Inr)
  show "cl = [] \<Longrightarrow> cmd_pwm_set_frequency h channels 97500 = (Inr [], h)"
    by (simp add: cmd_pwm_set_frequency_def n bindM_liftM_Inr)
qed

lemma normalize_channels_empty: "normalize_channels (Ch_iter []) m = Inr []"
  by (simp add: normalize_channels_def is_all_def items_of_def)

text \<open>
  C4, where the code departs from it. An empty collection is a channel selection that
  \<^verbatim>\<open>_normalize_channels\<close> accepts. With it \<^verbatim>\<open>cmd_pwm_set_frequency\<close> returns the empty list
  for 4096 Hz and for 97500 Hz and raises nothing, because the band is checked inside the
  loop over the channels. The check for a negative frequency in the same function, and
  the range check of \<^verbatim>\<open>cmd_pwm_set_data_raw\<close>, stand before the loop and do raise for
  the empty collection.
\<close>

theorem pwm_set_frequency_empty_selection:
  "cmd_pwm_set_frequency h (Ch_iter []) 4096 = (Inr [], h)
   \<and> cmd_pwm_set_frequency h (Ch_iter []) 97500 = (Inr [], h)
   \<and> cmd_pwm_set_frequency h (Ch_iter []) (- 1) = (Inl (ValueError Freq_negative), h)
   \<and> cmd_pwm_set_data_raw h (Ch_iter []) 0x0400 = (Inl (ValueError Dddd_0000_03FF), h)"
  by (simp add: cmd_pwm_set_frequency_def cmd_pwm_set_data_raw_def normalize_channels_empty
      bindM_liftM_Inr raiseM_def)

lemma normalize_channels_int_0: "normalize_channels (Ch_int 0) 7 = Inr [0]"
  by (simp add: normalize_channels_def is_all_def items_of_def)

text \<open>
  C8, where the code departs from it. The claim has two halves: every invalid input makes
  the operation raise a validation error, and the error comes before any byte is
  written. The second half holds for the whole catalogue (\<open>no_partial_transmission\<close>).
  The first does not: a frequency of 4096 Hz or 97500 Hz is outside both bands, and
  \<^verbatim>\<open>cmd_pwm_set_frequency\<close> rejects it for the channel 0, but with an empty collection
  of channels the call ends without an exception. Nothing is written in either case.
\<close>

theorem invalid_frequency_not_rejected:
  "outcome h (Pwm_set_frequency (Ch_int 0) 4096) = (Some (ValueError Freq_not_encodable), h)
   \<and> outcome h (Pwm_set_frequency (Ch_int 0) 97500) = (Some (ValueError Freq_not_encodable), h)
   \<and> outcome h (Pwm_set_frequency (Ch_iter []) 4096) = (None, h)
   \<and> outcome h (Pwm_set_frequency (Ch_iter []) 97500) = (None, h)"
proof -
  have f: "pwm_frequency_frame 4096 0 = Inl (ValueError Freq_not_encodable)"
          "pwm_frequency_frame 97500 0 = Inl (ValueError Freq_not_encodable)"
    by (simp_all add: pwm_frequency_frame_def)
  show ?thesis
    by (simp add: raised_def cmd_pwm_set_frequency_def normalize_channels_empty
        normalize_channels_int_0 bindM_liftM_Inr f send_frame_Inl)
qed

subsection \<open>Encoder control\<close>

lemma encoder_ctrl_data_neither:
  "encoder_ctrl_data dir_invert False False = (if dir_invert = Some True then 0x0001 else 0x0000)"
  by (simp add: encoder_ctrl_data_def)

lemma fmt_A4_frame:
  assumes "0 \<le> c" "c \<le> 3"
  shows "fmt_cmd ''A'' (hh_from_single_ch c) 0x4 0x0000 = Inr (''*A0'' @ [hexdigit (nat c)] @ ''40000#'')"
    and "fmt_cmd ''A'' (hh_from_single_ch c) 0x4 0x0001 = Inr (''*A0'' @ [hexdigit (nat c)] @ ''40001#'')"
  using channel_0_3_cases [OF assms]
  by (auto simp: fmt_eval hh_from_single_ch_def)

text \<open>
  C6. With both \<^verbatim>\<open>do_reset\<close> and \<^verbatim>\<open>load_preset\<close> set, \<^verbatim>\<open>cmd_encoder_ctrl\<close> raises a
  \<^verbatim>\<open>ValueError\<close> whatever the channel selection (valid or not) and leaves the handle as
  it was: the check precedes the normalisation of the channels and every frame. With
  neither set, the data word is \<open>0x0000\<close>, or \<open>0x0001\<close> when \<^verbatim>\<open>dir_invert\<close> is \<^verbatim>\<open>True\<close>,
  and for a selection that resolves to the channels \<open>cl\<close> the call sends, for each
  channel in order, the frame \<^verbatim>\<open>*A0c4000d#\<close> whose data field holds that word.
\<close>

theorem encoder_ctrl_reset_and_preset:
  "cmd_encoder_ctrl h channels dir_invert True True = (Inl (ValueError Reset_and_preset), h)
   \<and> encoder_ctrl_data dir_invert False False = (if dir_invert = Some True then 0x0001 else 0x0000)
   \<and> (normalize_channels channels 3 = Inr cl \<longrightarrow>
        cmd_encoder_ctrl h channels dir_invert False False =
          (Inr (map (\<lambda>c. ''*A0'' @ [hexdigit (nat c)] @ ''4000''
                          @ (if dir_invert = Some True then ''1'' else ''0'') @ ''#'') cl),
           h\<lparr>tx := tx h @ map (\<lambda>c. ''*A0'' @ [hexdigit (nat c)] @ ''4000''
                          @ (if dir_invert = Some True then ''1'' else ''0'') @ ''#'') cl,
             rx := drop (length cl) (rx h)\<rparr>))"
proof (intro conjI impI)
  show "cmd_encoder_ctrl h channels dir_invert True True = (Inl (ValueError Reset_and_preset), h)"
    by (simp add: cmd_encoder_ctrl_def raiseM_def)
  show "encoder_ctrl_data dir_invert False False = (if dir_invert = Some True then 0x0001 else 0x0000)"
    by (rule encoder_ctrl_data_neither)
  assume n: "normalize_channels channels 3 = Inr cl"
  from normalize_channels_range [OF n] have r: "\<forall>c\<in>set cl. 0 \<le> c \<and> c \<le> 3" .
  have a: "\<forall>c\<in>set cl. \<not> digit7 (hexdigit (nat c))"
  proof
    fix c assume "c \<in> set cl"
    with r have "0 \<le> c" "c \<le> 7" by auto
    then show "\<not> digit7 (hexdigit (nat c))" by (rule ascii_hexdigit)
  qed
  show "cmd_encoder_ctrl h channels dir_invert False False =
          (Inr (map (\<lambda>c. ''*A0'' @ [hexdigit (nat c)] @ ''4000''
                          @ (if dir_invert = Some True then ''1'' else ''0'') @ ''#'') cl),
           h\<lparr>tx := tx h @ map (\<lambda>c. ''*A0'' @ [hexdigit (nat c)] @ ''4000''
                          @ (if dir_invert = Some True then ''1'' else ''0'') @ ''#'') cl,
             rx := drop (length cl) (rx h)\<rparr>)"
  proof (cases "dir_invert = Some True")
    case True
    have "for_each (\<lambda>ch. send_frame (fmt_cmd ''A'' (hh_from_single_ch ch) 0x4 0x0001)) cl [] h =
            (Inr ([] @ map (\<lambda>c. ''*A0'' @ [hexdigit (nat c)] @ ''40001#'') cl),
             h\<lparr>tx := tx h @ map (\<lambda>c. ''*A0'' @ [hexdigit (nat c)] @ ''40001#'') cl,
               rx := drop (length cl) (rx h)\<rparr>)"
      using r a by (intro for_each_frames) (simp add: fmt_A4_frame)
    with True show ?thesis
      by (simp add: cmd_encoder_ctrl_def n bindM_liftM_Inr encoder_ctrl_data_neither)
  next
    case False
    have "for_each (\<lambda>ch. send_frame (fmt_cmd ''A'' (hh_from_single_ch ch) 0x4 0x0000)) cl [] h =
            (Inr ([] @ map (\<lambda>c. ''*A0'' @ [hexdigit (nat c)] @ ''40000#'') cl),
             h\<lparr>tx := tx h @ map (\<lambda>c. ''*A0'' @ [hexdigit (nat c)] @ ''40000#'') cl,
               rx := drop (length cl) (rx h)\<rparr>)"
      using r a by (intro for_each_frames) (simp add: fmt_A4_frame)
    with False show ?thesis
      by (simp add: cmd_encoder_ctrl_def n bindM_liftM_Inr encoder_ctrl_data_neither)
  qed
qed

lemma normalize_channels_int_2: "normalize_channels (Ch_int 2) 3 = Inr [2]"
  by (simp add: normalize_channels_def is_all_def items_of_def)

theorem encoder_ctrl_reset_and_preset_witness:
  "normalize_channels (Ch_int 2) 3 = Inr [2]
   \<and> cmd_encoder_ctrl \<lparr>tx = [], rx = [''*OK#'']\<rparr> (Ch_int 2) (Some True) False False =
       (Inr [''*A0240001#''], \<lparr>tx = [''*A0240001#''], rx = []\<rparr>)
   \<and> cmd_encoder_ctrl \<lparr>tx = [], rx = [''*OK#'']\<rparr> (Ch_int 2) (Some True) True True =
       (Inl (ValueError Reset_and_preset), \<lparr>tx = [], rx = [''*OK#'']\<rparr>)"
  using encoder_ctrl_reset_and_preset
    [of "\<lparr>tx = [], rx = [''*OK#'']\<rparr>" "Ch_int 2" "Some True" "[2]"]
  by (simp add: normalize_channels_int_2 hexdigit_def)

subsection \<open>The duty fraction\<close>

lemma cmd_pwm_set_duty_valid:
  "0 \<le> duty \<Longrightarrow> duty \<le> 1 \<Longrightarrow>
   cmd_pwm_set_duty h channels duty = cmd_pwm_set_data_raw h channels (pwm_duty_code duty)"
  by (simp add: cmd_pwm_set_duty_def)



subsection \<open>The range check behind the duty\<close>

lemma normalize_channels_error:
  assumes "normalize_channels chs m = Inl e"
  shows "e = ValueError Bad_ch_spec \<or> (\<exists>c. e = ValueError (Ch_out_of_range m c))"
  using assms
  by (auto simp: normalize_channels_def Let_def split: if_splits option.splits list.splits)

lemma cmd_pwm_set_data_raw_in_range:
  assumes "0x0000 \<le> dddd" "dddd \<le> 0x03FF"
  shows "fst (cmd_pwm_set_data_raw h channels dddd) \<noteq> Inl (ValueError Dddd_0000_03FF)"
proof (cases "normalize_channels channels 7")
  case (Inl e)
  with normalize_channels_error [OF Inl] assms show ?thesis
    by (auto simp: cmd_pwm_set_data_raw_def bindM_liftM_Inl)
next
  case (Inr cs)
  have "\<not> isl (fmt_cmd ''C'' c 0x0 dddd)" if "c \<in> set cs" for c
    using normalize_channels_range [OF Inr] that assms by (intro ok_fmt_cmd) auto
  then have "\<not> isl (fst (for_each (\<lambda>ch. send_frame (fmt_cmd ''C'' ch 0x0 dddd)) cs [] h))"
    by (intro ok_for_each) simp
  with Inr assms show ?thesis
    by (auto simp: cmd_pwm_set_data_raw_def bindM_liftM_Inr)
qed

text \<open>
  C10. For every duty in \<open>[0, 1]\<close> the code that \<^verbatim>\<open>cmd_pwm_set_duty\<close> computes lies in
  \<open>[0x0000, 0x03FF]\<close>, and in \<open>[0x0001, 0x03FE]\<close> when the duty is strictly between 0 and
  1. The call is then the call of \<^verbatim>\<open>cmd_pwm_set_data_raw\<close> with that code, and the
  range check of \<^verbatim>\<open>cmd_pwm_set_data_raw\<close> does not fire: the exception it would raise
  is not the outcome, whatever the channel selection.
\<close>

theorem pwm_set_duty_passes_range_check:
  assumes "0 \<le> duty" "duty \<le> 1"
  shows "0x0000 \<le> pwm_duty_code duty \<and> pwm_duty_code duty \<le> 0x03FF
         \<and> (0 < duty \<and> duty < 1 \<longrightarrow> 0x0001 \<le> pwm_duty_code duty \<and> pwm_duty_code duty \<le> 0x03FE)
         \<and> cmd_pwm_set_duty h channels duty = cmd_pwm_set_data_raw h channels (pwm_duty_code duty)
         \<and> fst (cmd_pwm_set_duty h channels duty) \<noteq> Inl (ValueError Dddd_0000_03FF)"
proof -
  note r = pwm_duty_code_range [OF assms]
  from r have "fst (cmd_pwm_set_data_raw h channels (pwm_duty_code duty))
                 \<noteq> Inl (ValueError Dddd_0000_03FF)"
    by (intro cmd_pwm_set_data_raw_in_range) simp_all
  with r assms show ?thesis
    by (simp add: cmd_pwm_set_duty_valid)
qed

theorem pwm_set_duty_passes_range_check_witness:
  "(0::rat) \<le> 1 / 2 \<and> (1 / 2 :: rat) \<le> 1 \<and> pwm_duty_code (1 / 2) = 0x01FF
   \<and> 0x0001 \<le> pwm_duty_code (1 / 2) \<and> pwm_duty_code (1 / 2) \<le> 0x03FE
   \<and> fst (cmd_pwm_set_duty \<lparr>tx = [], rx = []\<rparr> (Ch_int 9) (1 / 2))
       \<noteq> Inl (ValueError Dddd_0000_03FF)"
proof -
  have c: "pwm_duty_code (1 / 2) = 0x01FF" by (rule pwm_duty_code_values(3))
  have d: "(0::rat) \<le> 1 / 2" "(1 / 2 :: rat) \<le> 1" by simp_all
  from pwm_set_duty_passes_range_check [OF d, of "\<lparr>tx = [], rx = []\<rparr>" "Ch_int 9"]
  have "fst (cmd_pwm_set_duty \<lparr>tx = [], rx = []\<rparr> (Ch_int 9) (1 / 2))
          \<noteq> Inl (ValueError Dddd_0000_03FF)"
    by blast
  with c show ?thesis by simp
qed

subsection \<open>ADC value to voltage\<close>

lemma mod_fold:
  assumes "0 \<le> adc" "adc < 1048576"
  shows "(adc + 524288) mod 1048576 - 524288 = (if adc \<ge> 524288 then adc - 1048576 else (adc::int))"
proof (cases "adc \<ge> 524288")
  case False
  with assms have "(adc + 524288) mod 1048576 = adc + 524288"
    by (intro mod_pos_pos_trivial) simp_all
  with False show ?thesis by simp
next
  case True
  have "adc + 524288 = (adc - 524288) + 1048576" by simp
  then have "(adc + 524288) mod 1048576 = ((adc - 524288) + 1048576) mod 1048576"
    by (simp only:)
  also have "\<dots> = (adc - 524288) mod 1048576" by (rule mod_add_self2)
  also have "\<dots> = adc - 524288" using True assms by (intro mod_pos_pos_trivial) simp_all
  finally show ?thesis using True by simp
qed

lemma sint_20_fold:
  assumes "0 \<le> adc" "adc < 1048576"
  shows "sint (word_of_int adc :: 20 word) = (if adc \<ge> 524288 then adc - 1048576 else adc)"
proof -
  have "sint (word_of_int adc :: 20 word) = signed_take_bit 19 adc"
    by (simp add: sint_sbintrunc')
  also have "\<dots> = take_bit 20 (adc + 524288) - 524288"
    by (simp add: signed_take_bit_eq_take_bit_shift)
  also have "\<dots> = (adc + 524288) mod 1048576 - 524288"
    by (simp add: take_bit_eq_mod)
  also have "\<dots> = (if adc \<ge> 524288 then adc - 1048576 else adc)"
    using assms by (rule mod_fold)
  finally show ?thesis .
qed

text \<open>
  C5. \<^verbatim>\<open>convert_to_voltage\<close> folds a raw value of 524288 or more by subtracting 1048576
  and returns the folded value divided by 524288, times 5, times the gain: 0 gives 0,
  524288 gives \<open>-5\<close> times the gain and 786432 gives \<open>-2.5\<close> times the gain. On the raw
  values of 20 bits, \<open>0 \<le> adc < 1048576\<close>, the folded value is the two's-complement
  reading of the 20 bits. The arithmetic is that of the rationals, which is what the
  double-precision operations compute for these inputs.
\<close>

theorem convert_to_voltage_fold:
  "convert_to_voltage adc gain =
     of_int (if adc \<ge> 524288 then adc - 1048576 else adc) / 524288 * 5 * gain
   \<and> convert_to_voltage 0 gain = 0
   \<and> convert_to_voltage 524288 gain = - 5 * gain
   \<and> convert_to_voltage 786432 gain = - (5 / 2) * gain
   \<and> (0 \<le> adc \<and> adc < 1048576 \<longrightarrow>
        convert_to_voltage adc gain = of_int (sint (word_of_int adc :: 20 word)) / 524288 * 5 * gain)"
proof (intro conjI impI)
  show g: "convert_to_voltage adc gain =
     of_int (if adc \<ge> 524288 then adc - 1048576 else adc) / 524288 * 5 * gain"
    by (simp add: convert_to_voltage_def MAX_ADC_def Let_def)
  show "convert_to_voltage 0 gain = 0"
    by (simp add: convert_to_voltage_def MAX_ADC_def Let_def)
  show "convert_to_voltage 524288 gain = - 5 * gain"
    by (simp add: convert_to_voltage_def MAX_ADC_def Let_def)
  show "convert_to_voltage 786432 gain = - (5 / 2) * gain"
    by (simp add: convert_to_voltage_def MAX_ADC_def Let_def)
  assume "0 \<le> adc \<and> adc < 1048576"
  then have "sint (word_of_int adc :: 20 word) = (if adc \<ge> 524288 then adc - 1048576 else adc)"
    by (intro sint_20_fold) simp_all
  with g show "convert_to_voltage adc gain
                 = of_int (sint (word_of_int adc :: 20 word)) / 524288 * 5 * gain"
    by (simp only:)
qed

theorem convert_to_voltage_fold_witness:
  "(0::int) \<le> 786432 \<and> (786432::int) < 1048576
   \<and> sint (word_of_int 786432 :: 20 word) = - 262144
   \<and> convert_to_voltage 786432 2 = - 5
   \<and> convert_to_voltage 524287 1 = 2621435 / 524288"
proof -
  have s: "sint (word_of_int 786432 :: 20 word) = - 262144"
    using sint_20_fold [of 786432] by simp
  from convert_to_voltage_fold [of 786432 2] convert_to_voltage_fold [of 524287 1] s
  show ?thesis by simp
qed

subsection \<open>The channel argument of the encoder presets\<close>

lemma of_char_lower_char:
  "(of_char (lower_char c) :: nat) =
     (if 65 \<le> (of_char c :: nat) \<and> (of_char c :: nat) \<le> 90 then of_char c + 32 else of_char c)"
  by (simp add: lower_char_def Let_def)

lemma char_eq_code: "c = d \<longleftrightarrow> (of_char c :: nat) = of_char d"
  by simp

lemma lower_char_eq_a: "lower_char c = CHR ''a'' \<longleftrightarrow> c = CHR ''a'' \<or> c = CHR ''A''"
proof -
  have "lower_char c = CHR ''a'' \<longleftrightarrow> (of_char (lower_char c) :: nat) = 97"
    by (subst char_eq_code) simp
  also have "\<dots> \<longleftrightarrow> (of_char c :: nat) = 97 \<or> (of_char c :: nat) = 65"
    by (auto simp: of_char_lower_char)
  also have "\<dots> \<longleftrightarrow> c = CHR ''a'' \<or> c = CHR ''A''"
    using char_eq_code [of c "CHR ''a''"] char_eq_code [of c "CHR ''A''"] by simp
  finally show ?thesis .
qed

lemma lower_char_eq_l: "lower_char c = CHR ''l'' \<longleftrightarrow> c = CHR ''l'' \<or> c = CHR ''L''"
proof -
  have "lower_char c = CHR ''l'' \<longleftrightarrow> (of_char (lower_char c) :: nat) = 108"
    by (subst char_eq_code) simp
  also have "\<dots> \<longleftrightarrow> (of_char c :: nat) = 108 \<or> (of_char c :: nat) = 76"
    by (auto simp: of_char_lower_char)
  also have "\<dots> \<longleftrightarrow> c = CHR ''l'' \<or> c = CHR ''L''"
    using char_eq_code [of c "CHR ''l''"] char_eq_code [of c "CHR ''L''"] by simp
  finally show ?thesis .
qed

lemma lower_eq_all:
  "lower s = ''all'' \<longleftrightarrow>
     s \<in> {''all'', ''alL'', ''aLl'', ''aLL'', ''All'', ''AlL'', ''ALl'', ''ALL''}"
proof -
  have "lower s = ''all'' \<longleftrightarrow>
          (\<exists>a b c. s = [a, b, c] \<and> lower_char a = CHR ''a'' \<and> lower_char b = CHR ''l''
                    \<and> lower_char c = CHR ''l'')"
    by (auto simp: lower_def map_eq_Cons_conv)
  also have "\<dots> \<longleftrightarrow> s \<in> {''all'', ''alL'', ''aLl'', ''aLL'', ''All'', ''AlL'', ''ALl'', ''ALL''}"
    unfolding lower_char_eq_a lower_char_eq_l by auto
  finally show ?thesis .
qed

lemma norm_enc_ch_accepts:
  assumes "all_or_single_0_3 ch"
  shows "\<exists>chs. norm_enc_ch ch = Inr chs"
proof (cases ch)
  case (Ch_str s)
  with assms have "lower s = ''all''" by (simp add: all_or_single_0_3_def lower_eq_all)
  with Ch_str show ?thesis by (simp add: norm_enc_ch_def is_all_def)
next
  case (Ch_int n)
  with assms show ?thesis by (simp add: all_or_single_0_3_def norm_enc_ch_def is_all_def)
next
  case (Ch_iter xs)
  with assms show ?thesis by (simp add: all_or_single_0_3_def)
next
  case Ch_other
  with assms show ?thesis by (simp add: all_or_single_0_3_def)
qed

lemma norm_enc_ch_rejects:
  assumes "\<not> all_or_single_0_3 ch"
  shows "norm_enc_ch ch = Inl (ValueError Enc_ch_0_3_or_all)"
proof (cases ch)
  case (Ch_str s)
  with assms have "lower s \<noteq> ''all''" by (simp add: all_or_single_0_3_def lower_eq_all)
  with Ch_str show ?thesis by (simp add: norm_enc_ch_def is_all_def)
next
  case (Ch_int n)
  with assms show ?thesis by (auto simp: all_or_single_0_3_def norm_enc_ch_def is_all_def)
next
  case (Ch_iter xs)
  then show ?thesis by (simp add: norm_enc_ch_def is_all_def)
next
  case Ch_other
  then show ?thesis by (simp add: norm_enc_ch_def is_all_def)
qed

lemma ok_cmd_encoder_preset_hi:
  assumes "0x0000 \<le> v \<and> v \<le> 0xFFFF" "norm_enc_ch ch = Inr chs"
  shows "\<not> isl (fst (cmd_encoder_preset_hi h ch v))"
proof -
  have "\<not> isl (fmt_cmd ''A'' (hh_from_single_ch c) 0x2 v)" for c
    using assms(1) by (intro ok_fmt_cmd) (simp_all add: hh_from_single_ch_range)
  with assms show ?thesis
    by (simp add: cmd_encoder_preset_hi_def bindM_liftM_Inr ok_for_each)
qed

lemma ok_cmd_encoder_preset_32:
  assumes "0x00000000 \<le> w \<and> w \<le> 0xFFFFFFFF" "norm_enc_ch ch = Inr chs"
  shows "\<not> isl (fst (cmd_encoder_preset_32 h ch w))"
proof -
  have "\<not> isl (fst (bindM (\<lambda>h. cmd_encoder_preset_hi h ch (drop_bit 16 w AND 0xFFFF)) (\<lambda>cmds_hi.
               bindM (\<lambda>h. cmd_encoder_preset_lo h ch (w AND 0xFFFF)) (\<lambda>cmds_lo.
               returnM (cmds_hi @ cmds_lo))) h))"
  proof (rule ok_bindM)
    show "\<not> isl (fst (cmd_encoder_preset_hi h ch (drop_bit 16 w AND 0xFFFF)))"
      by (rule ok_cmd_encoder_preset_hi [OF _ assms(2)]) (simp add: AND_upper2)
  next
    fix x h'
    have "\<not> isl (fst (cmd_encoder_preset_lo h' ch (w AND 0xFFFF)))"
      by (rule ok_cmd_encoder_preset_lo [OF _ assms(2)]) (simp add: AND_upper2)
    then show "\<not> isl (fst (bindM (\<lambda>h. cmd_encoder_preset_lo h ch (w AND 0xFFFF))
                 (\<lambda>cmds_lo. returnM (x @ cmds_lo)) h'))"
      by (rule ok_bindM) (simp add: returnM_def)
  qed
  with assms(1) show ?thesis by (simp add: cmd_encoder_preset_32_def Let_def)
qed

lemma encoder_preset_rejects:
  assumes r: "norm_enc_ch ch = Inl (ValueError Enc_ch_0_3_or_all)"
  shows "cmd_encoder_preset_hi h ch v =
           (Inl (ValueError (if 0 \<le> v \<and> v \<le> 0xFFFF then Enc_ch_0_3_or_all
                             else Value16_0000_FFFF)), h)"
    and "cmd_encoder_preset_lo h ch v =
           (Inl (ValueError (if 0 \<le> v \<and> v \<le> 0xFFFF then Enc_ch_0_3_or_all
                             else Value16_0000_FFFF)), h)"
    and "cmd_encoder_preset_32 h ch w =
           (Inl (ValueError (if 0 \<le> w \<and> w \<le> 0xFFFFFFFF then Enc_ch_0_3_or_all
                             else Value32_range)), h)"
proof -
  show hi: "cmd_encoder_preset_hi h ch v =
           (Inl (ValueError (if 0 \<le> v \<and> v \<le> 0xFFFF then Enc_ch_0_3_or_all
                             else Value16_0000_FFFF)), h)" for v
    by (simp add: cmd_encoder_preset_hi_def r bindM_liftM_Inl raiseM_def)
  show "cmd_encoder_preset_lo h ch v =
           (Inl (ValueError (if 0 \<le> v \<and> v \<le> 0xFFFF then Enc_ch_0_3_or_all
                             else Value16_0000_FFFF)), h)"
    by (simp add: cmd_encoder_preset_lo_def r bindM_liftM_Inl raiseM_def)
  have "0 \<le> drop_bit 16 w AND 0xFFFF \<and> drop_bit 16 w AND 0xFFFF \<le> 0xFFFF"
    by (simp add: AND_upper2)
  with hi [of "drop_bit 16 w AND 0xFFFF"]
  have "cmd_encoder_preset_hi h ch (drop_bit 16 w AND 0xFFFF)
          = (Inl (ValueError Enc_ch_0_3_or_all), h)"
    by simp
  then show "cmd_encoder_preset_32 h ch w =
           (Inl (ValueError (if 0 \<le> w \<and> w \<le> 0xFFFFFFFF then Enc_ch_0_3_or_all
                             else Value32_range)), h)"
    by (simp add: cmd_encoder_preset_32_def Let_def bindM_def raiseM_def)
qed

lemma normalize_channels_0_1: "normalize_channels (Ch_iter [Some 0, Some 1]) 3 = Inr [0, 1]"
  by (simp add: normalize_channels_def is_all_def items_of_def)

text \<open>
  C9. The encoder preset operations (HI, LO and 32-bit) take as channel argument the
  string "all" in any mix of upper and lower case, or one integer from 0 to 3, and
  nothing else: with a valid value they run without an exception exactly for these
  arguments, and any other argument makes them raise a \<^verbatim>\<open>ValueError\<close> with the handle
  as it was (an invalid value raises its own \<^verbatim>\<open>ValueError\<close> first). A collection of
  integers is refused, whereas \<^verbatim>\<open>cmd_encoder_ctrl\<close>, which normalises its channels with
  \<^verbatim>\<open>_normalize_channels\<close>, takes it.
\<close>

theorem encoder_preset_channel_argument:
  "(\<not> all_or_single_0_3 ch \<longrightarrow>
      cmd_encoder_preset_hi h ch v =
        (Inl (ValueError (if 0 \<le> v \<and> v \<le> 0xFFFF then Enc_ch_0_3_or_all
                          else Value16_0000_FFFF)), h)
      \<and> cmd_encoder_preset_lo h ch v =
        (Inl (ValueError (if 0 \<le> v \<and> v \<le> 0xFFFF then Enc_ch_0_3_or_all
                          else Value16_0000_FFFF)), h)
      \<and> cmd_encoder_preset_32 h ch w =
        (Inl (ValueError (if 0 \<le> w \<and> w \<le> 0xFFFFFFFF then Enc_ch_0_3_or_all
                          else Value32_range)), h))
   \<and> (all_or_single_0_3 ch \<and> 0 \<le> v \<and> v \<le> 0xFFFF \<longrightarrow>
        \<not> isl (fst (cmd_encoder_preset_hi h ch v)) \<and> \<not> isl (fst (cmd_encoder_preset_lo h ch v)))
   \<and> (all_or_single_0_3 ch \<and> 0 \<le> w \<and> w \<le> 0xFFFFFFFF \<longrightarrow>
        \<not> isl (fst (cmd_encoder_preset_32 h ch w)))
   \<and> \<not> all_or_single_0_3 (Ch_iter xs)
   \<and> \<not> isl (fst (cmd_encoder_ctrl h (Ch_iter [Some 0, Some 1]) None False False))"
proof (intro conjI impI)
  assume "\<not> all_or_single_0_3 ch"
  then have r: "norm_enc_ch ch = Inl (ValueError Enc_ch_0_3_or_all)"
    by (rule norm_enc_ch_rejects)
  show "cmd_encoder_preset_hi h ch v =
        (Inl (ValueError (if 0 \<le> v \<and> v \<le> 0xFFFF then Enc_ch_0_3_or_all
                          else Value16_0000_FFFF)), h)"
    by (rule encoder_preset_rejects(1) [OF r])
  show "cmd_encoder_preset_lo h ch v =
        (Inl (ValueError (if 0 \<le> v \<and> v \<le> 0xFFFF then Enc_ch_0_3_or_all
                          else Value16_0000_FFFF)), h)"
    by (rule encoder_preset_rejects(2) [OF r])
  show "cmd_encoder_preset_32 h ch w =
        (Inl (ValueError (if 0 \<le> w \<and> w \<le> 0xFFFFFFFF then Enc_ch_0_3_or_all
                          else Value32_range)), h)"
    by (rule encoder_preset_rejects(3) [OF r])
next
  assume a: "all_or_single_0_3 ch \<and> 0 \<le> v \<and> v \<le> 0xFFFF"
  then obtain chs where n: "norm_enc_ch ch = Inr chs" using norm_enc_ch_accepts by blast
  from a show "\<not> isl (fst (cmd_encoder_preset_hi h ch v))"
    by (intro ok_cmd_encoder_preset_hi [OF _ n]) simp
  from a show "\<not> isl (fst (cmd_encoder_preset_lo h ch v))"
    by (intro ok_cmd_encoder_preset_lo [OF _ n]) simp
next
  assume a: "all_or_single_0_3 ch \<and> 0 \<le> w \<and> w \<le> 0xFFFFFFFF"
  then obtain chs where n: "norm_enc_ch ch = Inr chs" using norm_enc_ch_accepts by blast
  from a show "\<not> isl (fst (cmd_encoder_preset_32 h ch w))"
    by (intro ok_cmd_encoder_preset_32 [OF _ n]) simp
next
  show "\<not> all_or_single_0_3 (Ch_iter xs)" by (simp add: all_or_single_0_3_def)
next
  have "\<not> isl (fmt_cmd ''A'' (hh_from_single_ch c) 0x4 (encoder_ctrl_data None False False))" for c
    by (intro ok_fmt_cmd) (simp_all add: hh_from_single_ch_range encoder_ctrl_data_def)
  then have "\<not> isl (fst (bindM (liftM (normalize_channels (Ch_iter [Some 0, Some 1]) 3)) (\<lambda>chs.
             for_each (\<lambda>ch. send_frame (fmt_cmd ''A'' (hh_from_single_ch ch) 0x4
                                          (encoder_ctrl_data None False False)))
               chs []) h))"
    by (intro ok_bindM_liftM [OF normalize_channels_0_1] ok_for_each) simp
  then show "\<not> isl (fst (cmd_encoder_ctrl h (Ch_iter [Some 0, Some 1]) None False False))"
    by (simp add: cmd_encoder_ctrl_def del: for_each.simps)
qed

theorem encoder_preset_channel_argument_witness:
  "\<not> all_or_single_0_3 (Ch_iter [Some 0, Some 1])
   \<and> cmd_encoder_preset_hi \<lparr>tx = [], rx = []\<rparr> (Ch_iter [Some 0, Some 1]) 0x1234
       = (Inl (ValueError Enc_ch_0_3_or_all), \<lparr>tx = [], rx = []\<rparr>)
   \<and> cmd_encoder_preset_32 \<lparr>tx = [], rx = []\<rparr> (Ch_iter [Some 0, Some 1]) 0x12345678
       = (Inl (ValueError Enc_ch_0_3_or_all), \<lparr>tx = [], rx = []\<rparr>)
   \<and> all_or_single_0_3 (Ch_str ''All'')
   \<and> \<not> isl (fst (cmd_encoder_preset_hi \<lparr>tx = [], rx = []\<rparr> (Ch_str ''All'') 0x1234))
   \<and> \<not> isl (fst (cmd_encoder_preset_32 \<lparr>tx = [], rx = []\<rparr> (Ch_int 3) 0x12345678))"
proof -
  have a: "\<not> all_or_single_0_3 (Ch_iter [Some 0, Some 1])" "all_or_single_0_3 (Ch_str ''All'')"
    "all_or_single_0_3 (Ch_int 3)"
    by (simp_all add: all_or_single_0_3_def)
  from a
    encoder_preset_channel_argument
      [of "Ch_iter [Some 0, Some 1]" "\<lparr>tx = [], rx = []\<rparr>" "0x1234" "0x12345678"]
    encoder_preset_channel_argument
      [of "Ch_str ''All''" "\<lparr>tx = [], rx = []\<rparr>" "0x1234" "0x12345678"]
    encoder_preset_channel_argument
      [of "Ch_int 3" "\<lparr>tx = [], rx = []\<rparr>" "0x1234" "0x12345678"]
  show ?thesis by simp
qed

subsection \<open>GPIO read\<close>


















end
